theory Spec2Isabelle
  imports Complex_Main "HOL-Library.Log_Nat"
begin

section \<open>Python values and builtins used by the converter\<close>

text \<open>
  The development embeds \<^verbatim>\<open>scripts/lib/shacl_to_jsonschema.py\<close>, the class
  \<^verbatim>\<open>SHACLToJSONSchemaConverter\<close>. Strings are \<^typ>\<open>string\<close>, a character standing
  for the Unicode code point of the same number, so that the texts of the model are those
  whose code points are all below 256. On them the builtins \<^verbatim>\<open>int()\<close> and \<^verbatim>\<open>float()\<close>
  either return a number or raise \<^verbatim>\<open>ValueError\<close>.
\<close>

datatype error = ValueError | RecursionError

text \<open>
  A computation of the converter either runs forever (\<open>None\<close>), raises
  (\<open>Some (Inl e)\<close>) or returns (\<open>Some (Inr x)\<close>).
\<close>

type_synonym 'a exec = "(error + 'a) option"

definition bind :: "'a exec \<Rightarrow> ('a \<Rightarrow> 'b exec) \<Rightarrow> 'b exec" where
  "bind m f = (case m of None \<Rightarrow> None | Some (Inl e) \<Rightarrow> Some (Inl e) | Some (Inr x) \<Rightarrow> f x)"

text \<open>A \<^verbatim>\<open>for\<close> loop whose body may raise or hang: the first failure ends the loop.\<close>

fun for_each :: "('x \<Rightarrow> 's \<Rightarrow> 's exec) \<Rightarrow> 'x list \<Rightarrow> 's \<Rightarrow> 's exec" where
  "for_each body [] s = Some (Inr s)"
| "for_each body (x # xs) s = bind (body x s) (for_each body xs)"

subsection \<open>Strings\<close>

definition startswith :: "string \<Rightarrow> string \<Rightarrow> bool" where
  "startswith s p = (take (length p) s = p)"

definition endswith :: "string \<Rightarrow> string \<Rightarrow> bool" where
  "endswith s p = (length p \<le> length s \<and> drop (length s - length p) s = p)"

text \<open>\<^verbatim>\<open>s.split(c)[-1]\<close>: the text after the last occurrence of \<open>c\<close>.\<close>

definition split_last :: "char \<Rightarrow> string \<Rightarrow> string" where
  "split_last c s = rev (takeWhile (\<lambda>x. x \<noteq> c) (rev s))"

text \<open>\<^verbatim>\<open>s.split(c, 1)\<close> for a string that contains \<open>c\<close>.\<close>

definition split_first :: "char \<Rightarrow> string \<Rightarrow> string \<times> string" where
  "split_first c s = (takeWhile (\<lambda>x. x \<noteq> c) s, tl (dropWhile (\<lambda>x. x \<noteq> c) s))"

text \<open>
  The characters \<^verbatim>\<open>str.strip()\<close> removes: those for which \<^verbatim>\<open>str.isspace()\<close> holds.
\<close>

definition py_isspace :: "char \<Rightarrow> bool" where
  "py_isspace c = ((of_char c :: nat) \<in> {9, 10, 11, 12, 13, 28, 29, 30, 31, 32, 133, 160})"

definition strip :: "string \<Rightarrow> string" where
  "strip s = rev (dropWhile py_isspace (rev (dropWhile py_isspace s)))"

text \<open>
  The blanks \<^verbatim>\<open>int()\<close> and \<^verbatim>\<open>float()\<close> skip around a number: the six ASCII ones and the
  two other blanks below 256. The separators 28 to 31, which \<^verbatim>\<open>str.strip()\<close> removes, are
  not among them.
\<close>

definition number_blank :: "char \<Rightarrow> bool" where
  "number_blank c = ((of_char c :: nat) \<in> {9, 10, 11, 12, 13, 32, 133, 160})"

definition strip_number :: "string \<Rightarrow> string" where
  "strip_number s = rev (dropWhile number_blank (rev (dropWhile number_blank s)))"

definition is_digit :: "char \<Rightarrow> bool" where
  "is_digit c = (48 \<le> (of_char c :: nat) \<and> (of_char c :: nat) \<le> 57)"

definition digit_val :: "char \<Rightarrow> nat" where
  "digit_val c = of_char c - 48"

definition lower_char :: "char \<Rightarrow> char" where
  "lower_char c = (if 65 \<le> (of_char c :: nat) \<and> (of_char c :: nat) \<le> 90
                   then char_of ((of_char c :: nat) + 32) else c)"

definition lower :: "string \<Rightarrow> string" where
  "lower s = map lower_char s"

subsection \<open>\<^verbatim>\<open>int(str)\<close> and \<^verbatim>\<open>float(str)\<close>\<close>

text \<open>
  Python's grammar of a digit part is \<^verbatim>\<open>digit (["_"] digit)*\<close>. The function
  returns the digits, or \<open>None\<close> when the text is not a digit part.
\<close>

fun digitpart :: "string \<Rightarrow> nat list option" where
  "digitpart [] = None"
| "digitpart [c] = (if is_digit c then Some [digit_val c] else None)"
| "digitpart (c # d # cs) =
     (if is_digit c
      then (if d = CHR ''_'' then map_option (Cons (digit_val c)) (digitpart cs)
            else map_option (Cons (digit_val c)) (digitpart (d # cs)))
      else None)"

definition nat_of_digits :: "nat list \<Rightarrow> nat" where
  "nat_of_digits ds = foldl (\<lambda>a d. 10 * a + d) 0 ds"

text \<open>An optional sign in front of a text: whether it is negative, and the rest.\<close>

definition take_sign :: "string \<Rightarrow> bool \<times> string" where
  "take_sign s = (case s of [] \<Rightarrow> (False, [])
       | c # cs \<Rightarrow> if c = CHR ''-'' then (True, cs)
                  else if c = CHR ''+'' then (False, cs) else (False, s))"

text \<open>
  \<^verbatim>\<open>int(s)\<close> in base ten; \<open>None\<close> stands for \<^verbatim>\<open>ValueError\<close>, which is also raised
  for a text of more than 4300 digits, the default of \<^verbatim>\<open>sys.set_int_max_str_digits\<close>.
\<close>

definition py_int :: "string \<Rightarrow> int option" where
  "py_int s = (case take_sign (strip_number s) of (neg, body) \<Rightarrow>
       (case digitpart body of None \<Rightarrow> None
        | Some ds \<Rightarrow> if length ds > 4300 then None
                     else Some (if neg then - int (nat_of_digits ds) else int (nat_of_digits ds))))"

text \<open>
  A Python float is a double: \<open>Finite q\<close> for the double of value \<open>q\<close>, with \<open>Finite 0\<close> for
  \<^verbatim>\<open>0.0\<close> and \<open>NegZero\<close> for \<^verbatim>\<open>-0.0\<close>, and the three special values.
\<close>

datatype pyfloat = Finite rat | NegZero | PosInf | NegInf | NaN

definition pow2 :: "int \<Rightarrow> rat" where
  "pow2 k = (if 0 \<le> k then 2 ^ nat k else 1 / 2 ^ nat (- k))"

text \<open>The integer \<open>e\<close> with \<open>2\<^sup>e \<le> q < 2\<^sup>e\<^sup>+\<^sup>1\<close>, for a positive \<open>q\<close>.\<close>

definition floor_log2 :: "rat \<Rightarrow> int" where
  "floor_log2 q = (case quotient_of q of (a, b) \<Rightarrow>
       (let d = bitlen a - bitlen b in if pow2 d \<le> q then d else d - 1))"

definition round_half_even :: "rat \<Rightarrow> int" where
  "round_half_even x =
     (let f = \<lfloor>x\<rfloor>; r = x - of_int f
      in if r < 1 / 2 then f else if 1 / 2 < r then f + 1 else if even f then f else f + 1)"

text \<open>
  The double nearest to a positive rational, ties to the even significand: 53 bits above
  \<open>2\<^sup>-\<^sup>1\<^sup>0\<^sup>2\<^sup>2\<close>, multiples of \<open>2\<^sup>-\<^sup>1\<^sup>0\<^sup>7\<^sup>4\<close> below it; \<open>None\<close> when the
  rounded value is \<open>2\<^sup>1\<^sup>0\<^sup>2\<^sup>4\<close>, beyond the largest double.
\<close>

definition nearest_double :: "rat \<Rightarrow> rat option" where
  "nearest_double q =
     (let k = max (floor_log2 q - 52) (- 1074);
          v = of_int (round_half_even (q / pow2 k)) * pow2 k
      in if pow2 1024 \<le> v then None else Some v)"

text \<open>The float of a sign and a magnitude, as \<^verbatim>\<open>float()\<close> rounds a decimal text.\<close>

definition float_of :: "bool \<Rightarrow> rat \<Rightarrow> pyfloat" where
  "float_of neg q =
     (if q = 0 then (if neg then NegZero else Finite 0)
      else (case nearest_double \<bar>q\<bar> of
              None \<Rightarrow> (if neg then NegInf else PosInf)
            | Some v \<Rightarrow> if v = 0 then (if neg then NegZero else Finite 0)
                        else Finite (if neg then - v else v)))"

definition scale10 :: "nat \<Rightarrow> int \<Rightarrow> rat" where
  "scale10 n e = (if 0 \<le> e then of_nat n * 10 ^ nat e else of_nat n / 10 ^ nat (- e))"

text \<open>The exponent of a float text: empty, or \<^verbatim>\<open>("e" | "E") [sign] digitpart\<close>.\<close>

definition float_exponent :: "string \<Rightarrow> int option" where
  "float_exponent s = (case s of [] \<Rightarrow> Some 0
       | _ # cs \<Rightarrow> (case take_sign cs of (neg, body) \<Rightarrow>
           (case digitpart body of None \<Rightarrow> None
            | Some ds \<Rightarrow> Some (if neg then - int (nat_of_digits ds) else int (nat_of_digits ds)))))"

text \<open>
  The mantissa \<^verbatim>\<open>[digitpart] "." digitpart | digitpart ["."]\<close>: its digits and
  how many of them follow the point.
\<close>

definition float_mantissa :: "string \<Rightarrow> (nat list \<times> nat) option" where
  "float_mantissa m =
     (let ip = takeWhile (\<lambda>x. x \<noteq> CHR ''.'') m; rest = dropWhile (\<lambda>x. x \<noteq> CHR ''.'') m
      in if rest = [] then map_option (\<lambda>ds. (ds, 0)) (digitpart ip)
         else (let fp = tl rest
               in if ip = [] then map_option (\<lambda>fs. (fs, length fs)) (digitpart fp)
                  else (case digitpart ip of None \<Rightarrow> None
                        | Some ds \<Rightarrow> if fp = [] then Some (ds, 0)
                            else map_option (\<lambda>fs. (ds @ fs, length fs)) (digitpart fp))))"

definition is_exp_char :: "char \<Rightarrow> bool" where
  "is_exp_char c = (c = CHR ''e'' \<or> c = CHR ''E'')"

text \<open>\<^verbatim>\<open>float(s)\<close>; \<open>None\<close> stands for \<^verbatim>\<open>ValueError\<close>.\<close>

definition py_float :: "string \<Rightarrow> pyfloat option" where
  "py_float s = (case take_sign (strip_number s) of (neg, body) \<Rightarrow>
       if lower body = ''inf'' \<or> lower body = ''infinity'' then Some (if neg then NegInf else PosInf)
       else if lower body = ''nan'' then Some NaN
       else (case float_mantissa (takeWhile (\<lambda>c. \<not> is_exp_char c) body) of None \<Rightarrow> None
             | Some (ds, k) \<Rightarrow>
                (case float_exponent (dropWhile (\<lambda>c. \<not> is_exp_char c) body) of None \<Rightarrow> None
                 | Some e \<Rightarrow> Some (float_of neg (scale10 (nat_of_digits ds) (e - int k))))))"

section \<open>RDF graphs as rdflib presents them\<close>

text \<open>
  A \<^verbatim>\<open>decimal.Decimal\<close>: \<open>Dec neg n e\<close> is the finite decimal of sign \<open>neg\<close>,
  coefficient \<open>n\<close> and exponent \<open>e\<close>, that is \<open>\<plusminus> n \<sqdot> 10\<^sup>e\<close>; then the infinities and the
  quiet NaN. The signalling NaN, the one Decimal \<^verbatim>\<open>float()\<close> refuses, is not represented.
  \<^verbatim>\<open>float(d)\<close> is \<^verbatim>\<open>float(str(d))\<close>, the nearest double.
\<close>

datatype pydecimal = Dec bool nat int | DecInf bool | DecNaN

definition float_of_decimal :: "pydecimal \<Rightarrow> pyfloat" where
  "float_of_decimal d = (case d of
       Dec neg n e \<Rightarrow> float_of neg (scale10 n e)
     | DecInf neg \<Rightarrow> (if neg then NegInf else PosInf)
     | DecNaN \<Rightarrow> NaN)"

definition decimal_truthy :: "pydecimal \<Rightarrow> bool" where
  "decimal_truthy d = (case d of Dec neg n e \<Rightarrow> n \<noteq> 0 | DecInf neg \<Rightarrow> True | DecNaN \<Rightarrow> True)"

text \<open>
  The value \<^verbatim>\<open>Literal.toPython()\<close> converts a literal to, classified the way the
  converter inspects it with \<^verbatim>\<open>isinstance\<close>. \<open>PyNone\<close>: no conversion, \<^verbatim>\<open>toPython()\<close>
  returns the literal itself, a \<^verbatim>\<open>str\<close>. \<open>PyTemporal s\<close>: a date, datetime or time whose
  \<^verbatim>\<open>isoformat()\<close> is \<open>s\<close>. \<open>PyOther t\<close>: any other object, of truth value \<open>t\<close>.
\<close>

datatype pyval = PyNone | PyBool bool | PyInt int | PyFloat pyfloat | PyStr string
  | PyDecimal pydecimal | PyTemporal string | PyOther bool

text \<open>
  A node of the graph. A literal carries its lexical form (what \<^verbatim>\<open>str()\<close>
  returns) and its converted value, both fixed when rdflib builds the literal; its datatype
  and language tag are never read by the converter.
\<close>

datatype node = URIRef string | BNode string | Literal string pyval

type_synonym triple = "node \<times> node \<times> node"

text \<open>
  The graph: the triples in the order the store yields them, and the namespace
  bindings in the order \<^verbatim>\<open>graph.namespaces()\<close> yields them.
\<close>

record rdf_graph =
  triples :: "triple list"
  namespaces :: "(string \<times> string) list"

definition graph_objects :: "rdf_graph \<Rightarrow> node \<Rightarrow> node \<Rightarrow> node list" where
  "graph_objects g s p = map (\<lambda>(s', p', ob). ob) (filter (\<lambda>(s', p', ob). s' = s \<and> p' = p) (triples g))"

definition graph_subjects :: "rdf_graph \<Rightarrow> node \<Rightarrow> node \<Rightarrow> node list" where
  "graph_subjects g p ob = map (\<lambda>(s', p', ob'). s') (filter (\<lambda>(s', p', ob'). p' = p \<and> ob' = ob) (triples g))"

text \<open>\<^verbatim>\<open>graph.value(s, p)\<close>: the first object, or \<^verbatim>\<open>None\<close>.\<close>

definition graph_value :: "rdf_graph \<Rightarrow> node \<Rightarrow> node \<Rightarrow> node option" where
  "graph_value g s p = (case graph_objects g s p of [] \<Rightarrow> None | ob # _ \<Rightarrow> Some ob)"

definition node_str :: "node \<Rightarrow> string" where
  "node_str n = (case n of URIRef s \<Rightarrow> s | BNode s \<Rightarrow> s | Literal s v \<Rightarrow> s)"

text \<open>Truth value of a Python value, as \<^verbatim>\<open>bool()\<close> gives it.\<close>

definition pyval_truthy :: "string \<Rightarrow> pyval \<Rightarrow> bool" where
  "pyval_truthy lexical v = (case v of PyNone \<Rightarrow> lexical \<noteq> []
       | PyBool b \<Rightarrow> b | PyInt i \<Rightarrow> i \<noteq> 0
       | PyFloat f \<Rightarrow> f \<noteq> Finite 0 \<and> f \<noteq> NegZero | PyStr s \<Rightarrow> s \<noteq> []
       | PyDecimal d \<Rightarrow> decimal_truthy d | PyTemporal s \<Rightarrow> True | PyOther t \<Rightarrow> t)"

text \<open>
  Truth value of a node in \<^verbatim>\<open>if node:\<close>. \<^verbatim>\<open>URIRef\<close> and \<^verbatim>\<open>BNode\<close> are strings;
  a literal is true when its converted value is, or, without one, when its text is not empty.
\<close>

definition truthy :: "node \<Rightarrow> bool" where
  "truthy n = (case n of URIRef s \<Rightarrow> s \<noteq> [] | BNode s \<Rightarrow> s \<noteq> [] | Literal s v \<Rightarrow> pyval_truthy s v)"

definition is_set :: "node option \<Rightarrow> bool" where
  "is_set x = (case x of None \<Rightarrow> False | Some n \<Rightarrow> truthy n)"

definition SH :: "string \<Rightarrow> node" where
  "SH name = URIRef (''http://www.w3.org/ns/shacl#'' @ name)"

definition RDF :: "string \<Rightarrow> node" where
  "RDF name = URIRef (''http://www.w3.org/1999/02/22-rdf-syntax-ns#'' @ name)"

definition XSD :: "string \<Rightarrow> node" where
  "XSD name = URIRef (''http://www.w3.org/2001/XMLSchema#'' @ name)"

definition get_literal_value :: "rdf_graph \<Rightarrow> node \<Rightarrow> node \<Rightarrow> string option" where
  "get_literal_value g subject predicate =
     (case graph_value g subject predicate of None \<Rightarrow> None
      | Some v \<Rightarrow> if truthy v then Some (node_str v) else None)"

section \<open>JSON values and Python dictionaries\<close>

text \<open>
  The values a schema is built from. A Python \<^verbatim>\<open>dict\<close> keeps its keys in insertion
  order, which is the order \<^verbatim>\<open>json.dump\<close> writes them in, so a dictionary is an
  association list. \<open>JOther\<close> is a Python object that is none of the JSON kinds.
\<close>

datatype json = JNull | JBool bool | JInt int | JFloat pyfloat | JStr string
  | JArr "json list" | JObj "(string \<times> json) list" | JOther

type_synonym schema = "(string \<times> json) list"

text \<open>\<^verbatim>\<open>d[k] = v\<close>: an existing key keeps its place, a new key goes last.\<close>

fun dict_set :: "('k \<times> 'v) list \<Rightarrow> 'k \<Rightarrow> 'v \<Rightarrow> ('k \<times> 'v) list" where
  "dict_set [] k v = [(k, v)]"
| "dict_set ((k', v') # d) k v = (if k' = k then (k, v) # d else (k', v') # dict_set d k v)"

definition dict_get :: "('k \<times> 'v) list \<Rightarrow> 'k \<Rightarrow> 'v option" where
  "dict_get d k = map_of d k"

definition has_key :: "('k \<times> 'v) list \<Rightarrow> 'k \<Rightarrow> bool" where
  "has_key d k = (map_of d k \<noteq> None)"

text \<open>\<^verbatim>\<open>d.setdefault(k, v)\<close>, for its effect on \<open>d\<close>.\<close>

definition setdefault :: "('k \<times> 'v) list \<Rightarrow> 'k \<Rightarrow> 'v \<Rightarrow> ('k \<times> 'v) list" where
  "setdefault d k v = (if has_key d k then d else dict_set d k v)"

text \<open>\<^verbatim>\<open>d.update(e)\<close>.\<close>

definition dict_update :: "('k \<times> 'v) list \<Rightarrow> ('k \<times> 'v) list \<Rightarrow> ('k \<times> 'v) list" where
  "dict_update d e = foldl (\<lambda>acc (k, v). dict_set acc k v) d e"

section \<open>The converter object\<close>

record converter =
  graph :: rdf_graph
  naming :: string
  definitions :: "(string \<times> json) list"
  warnings :: "string list"
  class_to_shape_map :: "(string \<times> string) list"
  iri_to_term :: "(string \<times> string) list"

definition add_warning :: "converter \<Rightarrow> string \<Rightarrow> converter" where
  "add_warning c w = c\<lparr>warnings := warnings c @ [w]\<rparr>"

definition xsd_to_json_type :: "(node \<times> string) list" where
  "xsd_to_json_type =
     [(XSD ''string'', ''string''), (XSD ''integer'', ''integer''), (XSD ''int'', ''integer''),
      (XSD ''long'', ''integer''), (XSD ''short'', ''integer''), (XSD ''byte'', ''integer''),
      (XSD ''decimal'', ''number''), (XSD ''float'', ''number''), (XSD ''double'', ''number''),
      (XSD ''boolean'', ''boolean''), (XSD ''date'', ''string''), (XSD ''dateTime'', ''string''),
      (XSD ''time'', ''string''), (XSD ''anyURI'', ''string'')]"

definition xsd_to_json_format :: "(node \<times> string) list" where
  "xsd_to_json_format =
     [(XSD ''dateTime'', ''date-time''), (XSD ''date'', ''date''), (XSD ''time'', ''time''),
      (XSD ''anyURI'', ''uri'')]"

subsection \<open>Names\<close>

definition get_local_name :: "node \<Rightarrow> string" where
  "get_local_name uri =
     (let uri_str = node_str uri
      in if CHR ''#'' \<in> set uri_str then split_last (CHR ''#'') uri_str
         else if CHR ''/'' \<in> set uri_str then split_last (CHR ''/'') uri_str
         else uri_str)"

text \<open>
  The first namespace binding, in the order \<^verbatim>\<open>graph.namespaces()\<close> yields them,
  whose namespace is a prefix of the IRI.
\<close>

definition get_property_name :: "converter \<Rightarrow> node \<Rightarrow> string" where
  "get_property_name c path =
     (let iri = node_str path
      in if naming c = ''local'' then get_local_name path
         else if naming c = ''context''
         then (case dict_get (iri_to_term c) iri of
                 Some term \<Rightarrow> if term \<noteq> [] then term else get_local_name path
               | None \<Rightarrow> get_local_name path)
         else (let local_name = get_local_name path
               in case find (\<lambda>(prefix, namespace). startswith iri namespace) (namespaces (graph c)) of
                    Some (prefix, namespace) \<Rightarrow> prefix @ '':'' @ local_name
                  | None \<Rightarrow> local_name))"

subsection \<open>The JSON-LD context, inverted\<close>

text \<open>
  \<^verbatim>\<open>_load_jsonld_context_inverse\<close> on the document \<^verbatim>\<open>json.load\<close> returned; reading
  the file is outside the model. All keys of a JSON object are strings.
\<close>

definition ends_slash_or_hash :: "string \<Rightarrow> bool" where
  "ends_slash_or_hash v = (endswith v ''/'' \<or> endswith v ''#'')"

definition context_prefixes :: "schema \<Rightarrow> (string \<times> string) list" where
  "context_prefixes ctx =
     foldl (\<lambda>acc (k, v). case v of JStr s \<Rightarrow> if ends_slash_or_hash s then dict_set acc k s else acc
                                   | _ \<Rightarrow> acc) [] ctx"

definition expand :: "(string \<times> string) list \<Rightarrow> string \<Rightarrow> string" where
  "expand prefixes v =
     (if startswith v ''http://'' \<or> startswith v ''https://'' then v
      else if CHR '':'' \<in> set v
      then (case split_first (CHR '':'') v of (pfx, suffix) \<Rightarrow>
              (case dict_get prefixes pfx of
                 Some base \<Rightarrow> if base \<noteq> [] then base @ suffix else v
               | None \<Rightarrow> v))
      else v)"

definition load_jsonld_context_inverse :: "json \<Rightarrow> error + (string \<times> string) list" where
  "load_jsonld_context_inverse doc =
     (case (case doc of JObj d \<Rightarrow> dict_get d ''@context'' | _ \<Rightarrow> None) of
        Some (JObj ctx) \<Rightarrow>
          (let prefixes = context_prefixes ctx
           in Inr (foldl (\<lambda>acc (term, v). case v of
                              JStr s \<Rightarrow> if ends_slash_or_hash s then acc
                                        else setdefault acc (expand prefixes s) term
                            | _ \<Rightarrow> acc) [] ctx))
      | _ \<Rightarrow> Inl ValueError)"

text \<open>
  \<^verbatim>\<open>__init__\<close>. \<open>context\<close> is the parsed document at \<^verbatim>\<open>context_path\<close>, \<open>None\<close>
  when no path was given.
\<close>

definition init :: "rdf_graph \<Rightarrow> string \<Rightarrow> json option \<Rightarrow> error + converter" where
  "init g nm context =
     (let c = \<lparr>graph = g, naming = nm, definitions = [], warnings = [],
                class_to_shape_map = [], iri_to_term = []\<rparr>
      in if nm = ''context''
         then (case context of None \<Rightarrow> Inl ValueError
               | Some doc \<Rightarrow> (case load_jsonld_context_inverse doc of
                     Inl e \<Rightarrow> Inl e
                   | Inr table \<Rightarrow> Inr (c\<lparr>iri_to_term := table\<rparr>)))
         else Inr c)"

subsection \<open>RDF lists\<close>

definition rdf_nil :: node where
  "rdf_nil = RDF ''nil''"

text \<open>
  The loop of \<^verbatim>\<open>_extract_list_nodes\<close>, from the cell \<open>current\<close> with the nodes
  collected so far. It has no other exit than \<^verbatim>\<open>rdf:nil\<close> and a cell without a true
  \<^verbatim>\<open>rdf:rest\<close>; \<open>None\<close> is a walk that never ends.
\<close>

partial_function (option) list_nodes_loop :: "rdf_graph \<Rightarrow> node \<Rightarrow> node list \<Rightarrow> node list option" where
  "list_nodes_loop g current nodes =
     (if current = rdf_nil then Some nodes
      else (let nodes' = (case graph_value g current (RDF ''first'') of
                            None \<Rightarrow> nodes | Some first \<Rightarrow> nodes @ [first])
            in case graph_value g current (RDF ''rest'') of
                 None \<Rightarrow> Some nodes'
               | Some rest \<Rightarrow> if truthy rest then list_nodes_loop g rest nodes' else Some nodes'))"

declare list_nodes_loop.simps [code]

definition extract_list_nodes :: "rdf_graph \<Rightarrow> node \<Rightarrow> node list option" where
  "extract_list_nodes g list_node = list_nodes_loop g list_node []"

text \<open>The member of an enumeration as \<^verbatim>\<open>_extract_list_values\<close> appends it, if it does.\<close>

definition list_value :: "node \<Rightarrow> json option" where
  "list_value first = (case first of
       URIRef s \<Rightarrow> Some (JStr s)
     | BNode s \<Rightarrow> None
     | Literal s v \<Rightarrow> Some (case v of
           PyNone \<Rightarrow> JStr s | PyBool b \<Rightarrow> JBool b | PyInt i \<Rightarrow> JInt i | PyFloat f \<Rightarrow> JFloat f
         | PyStr t \<Rightarrow> JStr t | PyDecimal q \<Rightarrow> JFloat (float_of_decimal q) | PyTemporal d \<Rightarrow> JStr d
         | PyOther t \<Rightarrow> JStr s))"

partial_function (option) list_values_loop :: "rdf_graph \<Rightarrow> node \<Rightarrow> json list \<Rightarrow> json list option" where
  "list_values_loop g current vals =
     (if current = rdf_nil then Some vals
      else (let vals' = (case graph_value g current (RDF ''first'') of
                           None \<Rightarrow> vals
                         | Some first \<Rightarrow> (case list_value first of None \<Rightarrow> vals | Some v \<Rightarrow> vals @ [v]))
            in case graph_value g current (RDF ''rest'') of
                 None \<Rightarrow> Some vals'
               | Some rest \<Rightarrow> if truthy rest then list_values_loop g rest vals' else Some vals'))"

declare list_values_loop.simps [code]

definition extract_list_values :: "rdf_graph \<Rightarrow> node \<Rightarrow> json list option" where
  "extract_list_values g list_node = list_values_loop g list_node []"

section \<open>Property shapes\<close>

definition jsonld_id_object_schema :: schema where
  "jsonld_id_object_schema =
     [(''type'', JStr ''object''),
      (''properties'', JObj [(''@id'', JObj [(''type'', JStr ''string''), (''format'', JStr ''uri'')])]),
      (''required'', JArr [JStr ''@id'']),
      (''additionalProperties'', JBool True)]"

definition uri_string_schema :: json where
  "uri_string_schema = JObj [(''type'', JStr ''string''), (''format'', JStr ''uri'')]"

definition nodekind_to_schema :: "node \<Rightarrow> schema" where
  "nodekind_to_schema node_kind =
     (if node_kind = SH ''IRI''
      then [(''anyOf'', JArr [uri_string_schema, JObj jsonld_id_object_schema])]
      else if node_kind = SH ''Literal'' then [(''type'', JStr ''string'')]
      else if node_kind = SH ''BlankNode'' then [(''type'', JStr ''object'')]
      else if node_kind = SH ''BlankNodeOrIRI''
      then [(''anyOf'', JArr [JObj [(''type'', JStr ''object'')], uri_string_schema,
                             JObj jsonld_id_object_schema])]
      else if node_kind = SH ''IRIOrLiteral''
      then [(''anyOf'', JArr [uri_string_schema, JObj jsonld_id_object_schema,
                             JObj [(''type'', JStr ''string'')]])]
      else if node_kind = SH ''BlankNodeOrLiteral''
      then [(''anyOf'', JArr [JObj [(''type'', JStr ''object'')], JObj [(''type'', JStr ''string'')]])]
      else [(''$comment'', JStr (''Unsupported sh:nodeKind '' @ node_str node_kind))])"

text \<open>The type and format of a datatype, as both converters of a datatype set them.\<close>

definition datatype_schema :: "node \<Rightarrow> schema \<Rightarrow> schema" where
  "datatype_schema dt d =
     (let d1 = dict_set d ''type'' (JStr (case dict_get xsd_to_json_type dt of
                                            Some t \<Rightarrow> t | None \<Rightarrow> ''string''))
      in case dict_get xsd_to_json_format dt of
           Some json_format \<Rightarrow> if json_format \<noteq> [] then dict_set d1 ''format'' (JStr json_format) else d1
         | None \<Rightarrow> d1)"

definition ref_to :: "string \<Rightarrow> json" where
  "ref_to shape_name = JStr (''#/$defs/'' @ shape_name)"

definition convert_inline_constraint_to_schema :: "converter \<Rightarrow> node \<Rightarrow> schema" where
  "convert_inline_constraint_to_schema c constraint_node =
     (let g = graph c;
          dt = graph_value g constraint_node (SH ''datatype'');
          class_ref = graph_value g constraint_node (SH ''class'');
          node_kind = graph_value g constraint_node (SH ''nodeKind'');
          node_shape = graph_value g constraint_node (SH ''node'')
      in case (if is_set dt then dt else None) of
           Some d \<Rightarrow> datatype_schema d []
         | None \<Rightarrow>
       (case (if is_set node_kind then node_kind else None) of
           Some k \<Rightarrow> nodekind_to_schema k
         | None \<Rightarrow>
       (case (if is_set class_ref then class_ref else None) of
           Some cls \<Rightarrow>
             (case dict_get (class_to_shape_map c) (node_str cls) of
                Some shape_name \<Rightarrow>
                  if shape_name \<noteq> [] then [(''$ref'', ref_to shape_name)]
                  else [(''$comment'', JStr (''sh:class '' @ node_str cls @ '' - no corresponding shape found''))]
              | None \<Rightarrow> [(''$comment'', JStr (''sh:class '' @ node_str cls @ '' - no corresponding shape found''))])
         | None \<Rightarrow>
       (case (if is_set node_shape then node_shape else None) of
           Some ns \<Rightarrow> [(''$ref'', ref_to (get_local_name ns))]
         | None \<Rightarrow> []))))"

subsection \<open>Description\<close>

definition describe :: "rdf_graph \<Rightarrow> node \<Rightarrow> schema" where
  "describe g prop_shape =
     (case get_literal_value g prop_shape (SH ''description'') of
        Some description \<Rightarrow>
          if description \<noteq> [] then [(''description'', JStr description)]
          else (case get_literal_value g prop_shape (SH ''message'') of
                  Some message \<Rightarrow> if message \<noteq> [] then [(''description'', JStr message)] else []
                | None \<Rightarrow> [])
      | None \<Rightarrow>
          (case get_literal_value g prop_shape (SH ''message'') of
             Some message \<Rightarrow> if message \<noteq> [] then [(''description'', JStr message)] else []
           | None \<Rightarrow> []))"

subsection \<open>The type of the property: the first source that is present\<close>

text \<open>\<^verbatim>\<open>sh:hasValue\<close>: the constant and the type inferred from it.\<close>

definition has_value_schema :: "converter \<Rightarrow> node \<Rightarrow> schema \<Rightarrow> schema" where
  "has_value_schema c has_value prop_def = (case has_value of
       URIRef u \<Rightarrow> dict_set (dict_set prop_def ''const'' (JStr (get_property_name c has_value)))
                     ''type'' (JStr ''string'')
     | BNode b \<Rightarrow> prop_def
     | Literal s v \<Rightarrow> (case v of
           PyNone \<Rightarrow> dict_set (dict_set prop_def ''const'' (JStr s)) ''type'' (JStr ''string'')
         | PyBool b \<Rightarrow> dict_set (dict_set prop_def ''const'' (JBool b)) ''type'' (JStr ''boolean'')
         | PyInt i \<Rightarrow> dict_set (dict_set prop_def ''const'' (JInt i)) ''type'' (JStr ''number'')
         | PyFloat f \<Rightarrow> dict_set (dict_set prop_def ''const'' (JFloat f)) ''type'' (JStr ''number'')
         | PyStr t \<Rightarrow> dict_set (dict_set prop_def ''const'' (JStr t)) ''type'' (JStr ''string'')
         | PyDecimal q \<Rightarrow> dict_set (dict_set prop_def ''const'' (JFloat (float_of_decimal q)))
                          ''type'' (JStr ''number'')
         | PyTemporal d \<Rightarrow> dict_set (dict_set prop_def ''const'' (JStr d)) ''type'' (JStr ''string'')
         | PyOther t \<Rightarrow> dict_set (dict_set prop_def ''const'' JOther) ''type'' (JStr ''string'')))"

text \<open>
  One alternative of a property-level \<^verbatim>\<open>sh:or\<close>: an empty schema is dropped, a
  schema that is only an \<^verbatim>\<open>anyOf\<close> list is spliced in.
\<close>

definition add_alternative :: "converter \<Rightarrow> json list \<Rightarrow> node \<Rightarrow> json list" where
  "add_alternative c any_of alt_node =
     (let alt_schema = convert_inline_constraint_to_schema c alt_node
      in if alt_schema = [] then any_of
         else (case dict_get alt_schema ''anyOf'' of
                 Some (JArr alts) \<Rightarrow>
                   if set (map fst alt_schema) = {''anyOf''} then any_of @ alts
                   else any_of @ [JObj alt_schema]
               | _ \<Rightarrow> any_of @ [JObj alt_schema]))"

definition or_schema :: "converter \<Rightarrow> node \<Rightarrow> string \<Rightarrow> schema \<Rightarrow> (schema \<times> converter) option" where
  "or_schema c or_list prop_name prop_def =
     (case extract_list_nodes (graph c) or_list of
        None \<Rightarrow> None
      | Some alt_nodes \<Rightarrow>
          (let any_of = foldl (add_alternative c) [] alt_nodes
           in if any_of \<noteq> [] then Some (dict_set prop_def ''anyOf'' (JArr any_of), c)
              else Some (dict_set prop_def ''$comment'' (JStr ''sh:or present but could not be converted''),
                         add_warning c (''sh:or found in '' @ prop_name
                                          @ '' but no convertible alternatives were found''))))"

definition class_schema :: "converter \<Rightarrow> node \<Rightarrow> string \<Rightarrow> schema \<Rightarrow> schema \<times> converter" where
  "class_schema c class_ref prop_name prop_def =
     (let class_uri = node_str class_ref;
          missing = (dict_set prop_def ''$comment''
                       (JStr (''sh:class '' @ node_str class_ref @ '' - no corresponding shape found'')),
                     add_warning c (''No shape found with sh:targetClass '' @ node_str class_ref
                                      @ '' for property '' @ prop_name))
      in case dict_get (class_to_shape_map c) class_uri of
           Some shape_name \<Rightarrow>
             if shape_name \<noteq> [] then (dict_set prop_def ''$ref'' (ref_to shape_name), c) else missing
         | None \<Rightarrow> missing)"

definition type_stage :: "converter \<Rightarrow> node \<Rightarrow> string \<Rightarrow> schema \<Rightarrow> (schema \<times> converter) option" where
  "type_stage c prop_shape prop_name prop_def =
     (let g = graph c;
          dt = graph_value g prop_shape (SH ''datatype'');
          class_ref = graph_value g prop_shape (SH ''class'');
          node_kind = graph_value g prop_shape (SH ''nodeKind'');
          or_list = graph_value g prop_shape (SH ''or'');
          has_value = graph_value g prop_shape (SH ''hasValue'')
      in case has_value of
           Some hv \<Rightarrow> Some (has_value_schema c hv prop_def, c)
         | None \<Rightarrow>
       (case (if is_set or_list then or_list else None) of
           Some ol \<Rightarrow> or_schema c ol prop_name prop_def
         | None \<Rightarrow>
       (case (if is_set dt then dt else None) of
           Some d \<Rightarrow> Some (datatype_schema d prop_def, c)
         | None \<Rightarrow>
       (case (if is_set node_kind then node_kind else None) of
           Some k \<Rightarrow> Some (dict_update prop_def (nodekind_to_schema k), c)
         | None \<Rightarrow>
       (case (if is_set (graph_value g prop_shape (SH ''node'')) then graph_value g prop_shape (SH ''node'')
              else None) of
           Some node_shape \<Rightarrow> Some (dict_set prop_def ''$ref'' (ref_to (get_local_name node_shape)), c)
         | None \<Rightarrow>
       (case (if is_set class_ref then class_ref else None) of
           Some cls \<Rightarrow> Some (class_schema c cls prop_name prop_def)
         | None \<Rightarrow>
           Some (dict_set prop_def ''$comment'' (JStr ''No explicit sh:datatype or sh:class found''), c)))))))"

subsection \<open>A reference never keeps a sibling description\<close>

definition ref_stage :: "schema \<Rightarrow> schema" where
  "ref_stage prop_def =
     (case dict_get prop_def ''$ref'' of
        Some ref \<Rightarrow> (case dict_get prop_def ''description'' of
                       Some desc \<Rightarrow> [(''description'', desc), (''allOf'', JArr [JObj [(''$ref'', ref)]])]
                     | None \<Rightarrow> prop_def)
      | None \<Rightarrow> prop_def)"

subsection \<open>Cardinality\<close>

text \<open>
  \<^verbatim>\<open>int(x)\<close> of an optional text read by \<^verbatim>\<open>_get_literal_value\<close>: nothing to parse
  when it is \<^verbatim>\<open>None\<close>, and \<open>None\<close> here when \<^verbatim>\<open>int\<close> raises.
\<close>

definition int_of_optional :: "string option \<Rightarrow> int option option" where
  "int_of_optional x = (case x of None \<Rightarrow> Some None | Some s \<Rightarrow> map_option Some (py_int s))"

text \<open>The part of \<^verbatim>\<open>array_def\<close> that both array branches build alike.\<close>

definition array_def :: "schema \<Rightarrow> schema" where
  "array_def prop_def =
     (let a0 = [(''type'', JStr ''array'')];
          a1 = (if has_key prop_def ''type'' \<or> has_key prop_def ''$ref''
                then dict_set a0 ''items'' (JObj (filter (\<lambda>(k, v). k \<noteq> ''description'') prop_def))
                else a0)
      in case dict_get prop_def ''description'' of
           Some desc \<Rightarrow> dict_set a1 ''description'' desc
         | None \<Rightarrow> a1)"

definition more_than_one :: "int option \<Rightarrow> bool" where
  "more_than_one x = (case x of None \<Rightarrow> False | Some n \<Rightarrow> n > 1)"

definition cardinality_stage :: "rdf_graph \<Rightarrow> node \<Rightarrow> schema \<Rightarrow> error + (schema \<times> bool)" where
  "cardinality_stage g prop_shape prop_def =
     (let min_count = get_literal_value g prop_shape (SH ''minCount'');
          max_count = get_literal_value g prop_shape (SH ''maxCount'')
      in case int_of_optional min_count of
           None \<Rightarrow> Inl ValueError
         | Some min_count_int \<Rightarrow>
       (case int_of_optional max_count of
           None \<Rightarrow> Inl ValueError
         | Some max_count_int \<Rightarrow>
           (let is_required = (case min_count_int of None \<Rightarrow> False | Some n \<Rightarrow> n \<ge> 1)
            in if more_than_one max_count_int
               then (let a = array_def prop_def;
                         a1 = (case min_count_int of None \<Rightarrow> a | Some n \<Rightarrow> dict_set a ''minItems'' (JInt n));
                         a2 = (case max_count_int of None \<Rightarrow> a1 | Some n \<Rightarrow> dict_set a1 ''maxItems'' (JInt n))
                     in Inr (a2, is_required))
               else if more_than_one min_count_int
               then (let a = array_def prop_def;
                         a1 = (case min_count_int of None \<Rightarrow> a | Some n \<Rightarrow> dict_set a ''minItems'' (JInt n))
                     in Inr (a1, is_required))
               else Inr (prop_def, is_required))))"

subsection \<open>Constraints on the schema of the value, or of the array item\<close>

text \<open>
  \<^verbatim>\<open>prop_def["items"]\<close> when the schema is an array with items: the dictionary
  that \<^verbatim>\<open>enum_target\<close> and \<^verbatim>\<open>target_def\<close> alias.
\<close>

definition items_of :: "schema \<Rightarrow> schema option" where
  "items_of prop_def =
     (if dict_get prop_def ''type'' = Some (JStr ''array'')
      then (case dict_get prop_def ''items'' of Some (JObj items) \<Rightarrow> Some items | _ \<Rightarrow> None)
      else None)"

definition target_of :: "schema \<Rightarrow> schema" where
  "target_of prop_def = (case items_of prop_def of Some items \<Rightarrow> items | None \<Rightarrow> prop_def)"

text \<open>Writing the mutated target back: into \<^verbatim>\<open>items\<close>, or as the schema itself.\<close>

definition with_target :: "schema \<Rightarrow> schema \<Rightarrow> schema" where
  "with_target prop_def target =
     (case items_of prop_def of Some items \<Rightarrow> dict_set prop_def ''items'' (JObj target) | None \<Rightarrow> target)"

text \<open>
  \<^verbatim>\<open>x == True\<close> and \<^verbatim>\<open>x == False\<close> for the members of an enumeration: Python
  compares numbers by value, so \<open>1\<close> and \<open>1.0\<close> equal \<^verbatim>\<open>True\<close>, and \<open>0\<close>, \<open>0.0\<close> and
  \<open>-0.0\<close> equal \<^verbatim>\<open>False\<close>.
\<close>

definition eq_True :: "json \<Rightarrow> bool" where
  "eq_True v = (v = JBool True \<or> v = JInt 1 \<or> v = JFloat (Finite 1))"

definition eq_False :: "json \<Rightarrow> bool" where
  "eq_False v = (v = JBool False \<or> v = JInt 0 \<or> v = JFloat (Finite 0) \<or> v = JFloat NegZero)"

text \<open>\<^verbatim>\<open>set(enum_values) == {True, False}\<close>.\<close>

definition is_true_false_set :: "json list \<Rightarrow> bool" where
  "is_true_false_set vs = (list_all (\<lambda>v. eq_True v \<or> eq_False v) vs
                            \<and> list_ex eq_True vs \<and> list_ex eq_False vs)"

definition set_enum :: "json list \<Rightarrow> schema \<Rightarrow> schema" where
  "set_enum enum_values prop_def =
     (let enum_target = target_of prop_def
      in if dict_get enum_target ''type'' = Some (JStr ''boolean'') \<and> is_true_false_set enum_values
         then prop_def
         else with_target prop_def (dict_set enum_target ''enum'' (JArr enum_values)))"

definition enum_stage :: "rdf_graph \<Rightarrow> node \<Rightarrow> schema \<Rightarrow> schema option" where
  "enum_stage g prop_shape prop_def =
     (case graph_objects g prop_shape (SH ''in'') of
        [] \<Rightarrow> Some prop_def
      | in_value # _ \<Rightarrow>
          (case extract_list_values g in_value of
             None \<Rightarrow> None
           | Some enum_values \<Rightarrow> if enum_values \<noteq> [] then Some (set_enum enum_values prop_def)
                                 else Some prop_def))"

text \<open>\<^verbatim>\<open>if x is not None: target_def[key] = float(x)\<close>, and the same with \<^verbatim>\<open>int\<close>.\<close>

definition set_float :: "string \<Rightarrow> string option \<Rightarrow> schema \<Rightarrow> error + schema" where
  "set_float key x target = (case x of None \<Rightarrow> Inr target
       | Some s \<Rightarrow> (case py_float s of None \<Rightarrow> Inl ValueError
                     | Some f \<Rightarrow> Inr (dict_set target key (JFloat f))))"

definition set_int :: "string \<Rightarrow> string option \<Rightarrow> schema \<Rightarrow> error + schema" where
  "set_int key x target = (case x of None \<Rightarrow> Inr target
       | Some s \<Rightarrow> (case py_int s of None \<Rightarrow> Inl ValueError
                     | Some n \<Rightarrow> Inr (dict_set target key (JInt n))))"

definition then_do :: "error + 'a \<Rightarrow> ('a \<Rightarrow> error + 'b) \<Rightarrow> error + 'b" where
  "then_do m f = (case m of Inl e \<Rightarrow> Inl e | Inr x \<Rightarrow> f x)"

definition set_pattern :: "string option \<Rightarrow> schema \<Rightarrow> schema" where
  "set_pattern x target = (case x of None \<Rightarrow> target
       | Some s \<Rightarrow> if s \<noteq> [] then dict_set target ''pattern'' (JStr s) else target)"

text \<open>The numeric and the string constraints, written on \<^verbatim>\<open>target_def\<close> in this order.\<close>

definition bounds :: "rdf_graph \<Rightarrow> node \<Rightarrow> schema \<Rightarrow> error + schema" where
  "bounds g prop_shape target =
     then_do (set_float ''minimum'' (get_literal_value g prop_shape (SH ''minInclusive'')) target) (\<lambda>t1.
     then_do (set_float ''maximum'' (get_literal_value g prop_shape (SH ''maxInclusive'')) t1) (\<lambda>t2.
     then_do (set_float ''exclusiveMinimum'' (get_literal_value g prop_shape (SH ''minExclusive'')) t2) (\<lambda>t3.
     then_do (set_float ''exclusiveMaximum'' (get_literal_value g prop_shape (SH ''maxExclusive'')) t3) (\<lambda>t4.
     then_do (set_int ''minLength'' (get_literal_value g prop_shape (SH ''minLength'')) t4) (\<lambda>t5.
     then_do (set_int ''maxLength'' (get_literal_value g prop_shape (SH ''maxLength'')) t5) (\<lambda>t6.
     Inr (set_pattern (get_literal_value g prop_shape (SH ''pattern'')) t6)))))))"

definition bounds_stage :: "rdf_graph \<Rightarrow> node \<Rightarrow> schema \<Rightarrow> error + schema" where
  "bounds_stage g prop_shape prop_def =
     then_do (bounds g prop_shape (target_of prop_def)) (\<lambda>target. Inr (with_target prop_def target))"

subsection \<open>Constraints that cannot be converted\<close>

definition comment_of :: "schema \<Rightarrow> string" where
  "comment_of prop_def = (case dict_get prop_def ''$comment'' of Some (JStr s) \<Rightarrow> s | _ \<Rightarrow> [])"

definition unconvertible_stage :: "converter \<Rightarrow> node \<Rightarrow> string \<Rightarrow> schema \<Rightarrow> schema \<times> converter" where
  "unconvertible_stage c prop_shape prop_name prop_def =
     (let g = graph c;
          c1 = (if graph_objects g prop_shape (SH ''xone'') \<noteq> []
                then add_warning c (''sh:xone found in '' @ prop_name @ '' - partial conversion to oneOf'')
                else c);
          c2 = (if graph_objects g prop_shape (SH ''and'') \<noteq> []
                then add_warning c1 (''sh:and found in '' @ prop_name @ '' - partial conversion to allOf'')
                else c1)
      in if graph_objects g prop_shape (SH ''sparql'') \<noteq> []
         then (dict_set prop_def ''$comment''
                 (JStr (strip (comment_of prop_def
                                 @ '' Contains sh:sparql constraint not convertible to JSON Schema''))),
               add_warning c2 (''sh:sparql found in '' @ prop_name
                                 @ '' - CANNOT be converted to JSON Schema''))
         else (prop_def, c2))"

subsection \<open>\<^verbatim>\<open>_convert_property_shape\<close>\<close>

definition lift :: "error + 'a \<Rightarrow> 'a exec" where
  "lift r = Some r"

definition convert_property_shape ::
  "converter \<Rightarrow> node \<Rightarrow> ((string option \<times> schema \<times> bool) \<times> converter) exec" where
  "convert_property_shape c prop_shape =
     (case (if is_set (graph_value (graph c) prop_shape (SH ''path''))
            then graph_value (graph c) prop_shape (SH ''path'') else None) of
        None \<Rightarrow> Some (Inr ((None, [], False),
                  add_warning c (''Property shape without sh:path found: '' @ node_str prop_shape)))
      | Some path \<Rightarrow>
          (let prop_name = get_property_name c path
           in case type_stage c prop_shape prop_name (describe (graph c) prop_shape) of
                None \<Rightarrow> None
              | Some (prop_def1, c1) \<Rightarrow>
                  bind (lift (cardinality_stage (graph c) prop_shape (ref_stage prop_def1)))
                    (\<lambda>(prop_def2, is_required).
                  bind (case enum_stage (graph c) prop_shape prop_def2 of
                          None \<Rightarrow> None | Some d \<Rightarrow> Some (Inr d))
                    (\<lambda>prop_def3.
                  bind (lift (bounds_stage (graph c) prop_shape prop_def3))
                    (\<lambda>prop_def4.
                  (case unconvertible_stage c1 prop_shape prop_name prop_def4 of
                     (prop_def5, c2) \<Rightarrow>
                       Some (Inr ((Some prop_name, prop_def5, is_required), c2))))))))"

section \<open>Node shapes\<close>

definition informative_keys :: "string list" where
  "informative_keys = [''type'', ''$ref'', ''anyOf'', ''oneOf'', ''allOf'', ''enum'', ''format'',
     ''minimum'', ''maximum'', ''exclusiveMinimum'', ''exclusiveMaximum'', ''pattern'',
     ''minLength'', ''maxLength'']"

definition is_informative_property_schema :: "json \<Rightarrow> bool" where
  "is_informative_property_schema s =
     (case s of JObj d \<Rightarrow> list_ex (has_key d) informative_keys | _ \<Rightarrow> False)"

text \<open>
  The rule that three loops of the source repeat: a discovered property is stored when
  the name is new, or when the stored schema is not informative and the new one is.
\<close>

definition merge_property :: "(string \<times> json) list \<Rightarrow> string \<times> json \<Rightarrow> (string \<times> json) list" where
  "merge_property props entry = (case entry of (name, s) \<Rightarrow>
       (case dict_get props name of
          None \<Rightarrow> dict_set props name s
        | Some existing \<Rightarrow>
            if \<not> is_informative_property_schema existing \<and> is_informative_property_schema s
            then dict_set props name s else props))"

text \<open>
  The body of the loop over the \<^verbatim>\<open>sh:property\<close> objects of an inline constraint
  node: \<open>props\<close>, \<open>discovered_props\<close> and \<open>req\<close>.
\<close>

definition inline_property_step ::
  "node \<Rightarrow> ((string \<times> json) list \<times> (string \<times> json) list \<times> string list) \<times> converter
     \<Rightarrow> (((string \<times> json) list \<times> (string \<times> json) list \<times> string list) \<times> converter) exec" where
  "inline_property_step prop_shape st = (case st of ((props, discovered_props, req), c) \<Rightarrow>
     bind (convert_property_shape c prop_shape) (\<lambda>((prop_name, prop_def, is_required), c').
       (case prop_name of
          None \<Rightarrow> Some (Inr ((props, discovered_props, req), c'))
        | Some name \<Rightarrow>
            if name \<noteq> []
            then Some (Inr ((dict_set props name (JObj prop_def),
                             dict_set discovered_props name (JObj prop_def),
                             if is_required then req @ [name] else req), c'))
            else Some (Inr ((props, discovered_props, req), c')))))"

definition object_schema :: "(string \<times> json) list \<Rightarrow> string list \<Rightarrow> schema" where
  "object_schema props req =
     (let o1 = (if props \<noteq> [] then dict_set [(''type'', JStr ''object'')] ''properties'' (JObj props)
                else [(''type'', JStr ''object'')])
      in if req \<noteq> [] then dict_set o1 ''required'' (JArr (map JStr req)) else o1)"

text \<open>
  \<^verbatim>\<open>_convert_node_constraint_node_to_schema\<close> calls itself on every \<^verbatim>\<open>sh:not\<close>
  object. The first argument is the number of nested calls the interpreter still allows;
  at zero the call raises \<^verbatim>\<open>RecursionError\<close>.
\<close>

primrec convert_node_constraint_node_to_schema ::
  "nat \<Rightarrow> converter \<Rightarrow> node \<Rightarrow> ((schema \<times> (string \<times> json) list) \<times> converter) exec" where
  "convert_node_constraint_node_to_schema 0 c constraint_node = Some (Inl RecursionError)"
| "convert_node_constraint_node_to_schema (Suc depth) c constraint_node =
     bind (for_each inline_property_step (graph_objects (graph c) constraint_node (SH ''property''))
             (([], [], []), c))
       (\<lambda>((props, discovered_props, req), c1).
     bind (for_each
             (\<lambda>not_node ((subschemas, discovered), c2).
                bind (convert_node_constraint_node_to_schema depth c2 not_node)
                  (\<lambda>((nested_schema, nested_props), c3).
                     Some (Inr ((if nested_schema \<noteq> []
                                 then subschemas @ [[(''not'', JObj nested_schema)]] else subschemas,
                                 foldl merge_property discovered nested_props), c3))))
             (graph_objects (graph c) constraint_node (SH ''not''))
             ((if props = [] \<and> req = [] then [] else [object_schema props req], discovered_props), c1))
       (\<lambda>((subschemas, discovered), c4).
          (case subschemas of
             [] \<Rightarrow> Some (Inr (([], discovered), c4))
           | [only] \<Rightarrow> Some (Inr ((only, discovered), c4))
           | _ \<Rightarrow> Some (Inr (([(''allOf'', JArr (map JObj subschemas))], discovered), c4)))))"

text \<open>The body of the loop over the \<^verbatim>\<open>sh:property\<close> objects of a node shape.\<close>

definition property_step ::
  "node \<Rightarrow> ((string \<times> json) list \<times> string list) \<times> converter
     \<Rightarrow> (((string \<times> json) list \<times> string list) \<times> converter) exec" where
  "property_step prop_shape st = (case st of ((properties, required), c) \<Rightarrow>
     bind (convert_property_shape c prop_shape) (\<lambda>((prop_name, prop_def, is_required), c').
       (case prop_name of
          None \<Rightarrow> Some (Inr ((properties, required), c'))
        | Some name \<Rightarrow>
            if name \<noteq> []
            then Some (Inr ((dict_set properties name (JObj prop_def),
                             if is_required then required @ [name] else required), c'))
            else Some (Inr ((properties, required), c')))))"

text \<open>Node-level \<^verbatim>\<open>sh:or\<close>: the new properties, the new definition and the converter.\<close>

definition node_or_stage ::
  "nat \<Rightarrow> converter \<Rightarrow> node \<Rightarrow> string \<Rightarrow> (string \<times> json) list \<Rightarrow> schema
     \<Rightarrow> (((string \<times> json) list \<times> schema) \<times> converter) exec" where
  "node_or_stage depth c shape shape_name properties definition =
     (case (if is_set (graph_value (graph c) shape (SH ''or''))
            then graph_value (graph c) shape (SH ''or'') else None) of
        None \<Rightarrow> Some (Inr ((properties, definition), c))
      | Some shape_or_list \<Rightarrow>
          (case extract_list_nodes (graph c) shape_or_list of
             None \<Rightarrow> None
           | Some alt_nodes \<Rightarrow>
               bind (for_each
                       (\<lambda>alt_node ((any_of, discovered_props), c1).
                          bind (convert_node_constraint_node_to_schema depth c1 alt_node)
                            (\<lambda>((alt_schema, alt_props), c2).
                               Some (Inr ((if alt_schema \<noteq> [] then any_of @ [JObj alt_schema] else any_of,
                                           foldl merge_property discovered_props alt_props), c2))))
                       alt_nodes (([], []), c))
                 (\<lambda>((any_of, discovered_props), c3).
                    (let properties' = foldl merge_property properties discovered_props
                     in if any_of \<noteq> []
                        then Some (Inr ((properties', dict_set definition ''anyOf'' (JArr any_of)), c3))
                        else Some (Inr ((properties', definition),
                               add_warning c3 (''sh:or found in NodeShape '' @ shape_name
                                 @ '' but no convertible alternatives were found'')))))))"

text \<open>
  Node-level \<^verbatim>\<open>sh:and\<close>. It runs after \<^verbatim>\<open>definition["properties"] = properties\<close>
  and goes on writing into the same \<^verbatim>\<open>properties\<close> dictionary.
\<close>

definition node_and_stage ::
  "nat \<Rightarrow> converter \<Rightarrow> node \<Rightarrow> string \<Rightarrow> (string \<times> json) list \<Rightarrow> schema
     \<Rightarrow> (((string \<times> json) list \<times> schema) \<times> converter) exec" where
  "node_and_stage depth c shape shape_name properties definition =
     (case (if is_set (graph_value (graph c) shape (SH ''and''))
            then graph_value (graph c) shape (SH ''and'') else None) of
        None \<Rightarrow> Some (Inr ((properties, definition), c))
      | Some and_list \<Rightarrow>
          (case extract_list_nodes (graph c) and_list of
             None \<Rightarrow> None
           | Some and_nodes \<Rightarrow>
               bind (for_each
                       (\<lambda>and_node ((all_of, props), c1).
                          (case and_node of
                             URIRef u \<Rightarrow>
                               (let ref_name = get_local_name and_node
                                in if ref_name = shape_name then Some (Inr ((all_of, props), c1))
                                   else Some (Inr ((all_of @ [JObj [(''$ref'', ref_to ref_name)]], props), c1)))
                           | _ \<Rightarrow>
                               bind (convert_node_constraint_node_to_schema depth c1 and_node)
                                 (\<lambda>((and_schema, and_props), c2).
                                    Some (Inr ((if and_schema \<noteq> [] then all_of @ [JObj and_schema] else all_of,
                                                foldl merge_property props and_props), c2)))))
                       and_nodes (([], properties), c))
                 (\<lambda>((all_of, props), c3).
                    if all_of \<noteq> []
                    then Some (Inr ((props, dict_set definition ''allOf'' (JArr all_of)), c3))
                    else Some (Inr ((props, definition),
                           add_warning c3 (''sh:and found in NodeShape '' @ shape_name
                             @ '' but no convertible members were found''))))))"

definition type_property :: "string \<Rightarrow> json" where
  "type_property class_name =
     JObj [(''type'', JStr ''string''), (''const'', JStr class_name),
           (''description'', JStr (''Type identifier for '' @ class_name))]"

definition titled_definition :: "rdf_graph \<Rightarrow> node \<Rightarrow> schema" where
  "titled_definition g shape =
     (let d0 = [(''type'', JStr ''object''),
                (''$comment'', JStr (''Generated from SHACL shape '' @ node_str shape))];
          d1 = dict_set d0 ''title'' (JStr (get_local_name shape))
      in case get_literal_value g shape (SH ''description'') of
           Some description \<Rightarrow>
             if description \<noteq> [] then dict_set d1 ''description'' (JStr description)
             else (case get_literal_value g shape (SH ''name'') of
                     Some name \<Rightarrow> if name \<noteq> [] then dict_set d1 ''description'' (JStr name) else d1
                   | None \<Rightarrow> d1)
         | None \<Rightarrow>
             (case get_literal_value g shape (SH ''name'') of
                Some name \<Rightarrow> if name \<noteq> [] then dict_set d1 ''description'' (JStr name) else d1
              | None \<Rightarrow> d1))"

definition is_closed :: "rdf_graph \<Rightarrow> node \<Rightarrow> bool" where
  "is_closed g shape = (case get_literal_value g shape (SH ''closed'') of
       None \<Rightarrow> False | Some closed_text \<Rightarrow> closed_text \<noteq> [] \<and> lower closed_text = ''true'')"

text \<open>
  \<^verbatim>\<open>_convert_node_shape\<close>; \<open>depth\<close> is the recursion depth left for inline
  constraint nodes. When \<^verbatim>\<open>properties\<close> is not empty before \<^verbatim>\<open>sh:and\<close> is handled, the
  definition holds that very dictionary, so it shows what \<^verbatim>\<open>sh:and\<close> adds later.
\<close>

definition convert_node_shape :: "nat \<Rightarrow> converter \<Rightarrow> node \<Rightarrow> converter exec" where
  "convert_node_shape depth c shape =
     (let g = graph c;
          shape_name = get_local_name shape;
          definition0 = titled_definition g shape;
          target_class = graph_value g shape (SH ''targetClass'');
          start = (case (if is_set target_class then target_class else None) of
                     Some cls \<Rightarrow> ([(''@type'', type_property (get_local_name cls))], [''@type''])
                   | None \<Rightarrow> ([], []))
      in bind (for_each property_step (graph_objects g shape (SH ''property'')) (start, c))
           (\<lambda>((properties1, required), c1).
         bind (node_or_stage depth c1 shape shape_name properties1 definition0)
           (\<lambda>((properties2, definition1), c2).
         (let definition2 = (if properties2 \<noteq> [] then dict_set definition1 ''properties'' (JObj properties2)
                             else definition1);
              definition3 = (if required \<noteq> [] then dict_set definition2 ''required'' (JArr (map JStr required))
                             else definition2)
          in bind (node_and_stage depth c2 shape shape_name properties2 definition3)
               (\<lambda>((properties3, definition4), c3).
             (let definition5 = (if properties2 \<noteq> [] then dict_set definition4 ''properties'' (JObj properties3)
                                 else definition4);
                  definition6 = (if is_closed g shape
                                 then dict_set definition5 ''additionalProperties'' (JBool False)
                                 else definition5)
              in Some (Inr (c3\<lparr>definitions := dict_set (definitions c3) shape_name (JObj definition6)\<rparr>))))))))"

section \<open>The document\<close>

definition build_class_to_shape_map :: "converter \<Rightarrow> node list \<Rightarrow> converter" where
  "build_class_to_shape_map c node_shapes =
     foldl (\<lambda>c' shape.
              (case graph_value (graph c') shape (SH ''targetClass'') of
                 None \<Rightarrow> c'
               | Some target_class \<Rightarrow>
                   if truthy target_class
                   then c'\<lparr>class_to_shape_map :=
                            dict_set (class_to_shape_map c') (node_str target_class) (get_local_name shape)\<rparr>
                   else c'))
       c node_shapes"

definition create_empty_schema :: schema where
  "create_empty_schema =
     [(''$schema'', JStr ''http://json-schema.org/draft-07/schema#''),
      (''title'', JStr ''Empty Schema''),
      (''description'', JStr ''No SHACL shapes found for conversion''),
      (''type'', JStr ''object'')]"

text \<open>\<^verbatim>\<open>if key in first_shape: schema[key] = first_shape[key]\<close>.\<close>

definition copy_key :: "schema \<Rightarrow> schema \<Rightarrow> string \<Rightarrow> schema" where
  "copy_key first_shape s key = (case dict_get first_shape key of None \<Rightarrow> s | Some v \<Rightarrow> dict_set s key v)"

definition create_main_schema :: "converter \<Rightarrow> schema" where
  "create_main_schema c =
     (let s0 = [(''$schema'', JStr ''http://json-schema.org/draft-07/schema#''),
                (''title'', JStr ''Generated JSON Schema from SHACL''),
                (''description'', JStr (''This schema was automatically generated from SHACL shapes. ''
                   @ ''It provides structural validation only. ''
                   @ ''For semantic validation, use the original SHACL shapes.'')),
                (''$comment'', JStr ''Auto-generated by shacl-to-jsonschema.py - DO NOT EDIT MANUALLY''),
                (''$defs'', JObj (definitions c))]
      in case definitions c of
           [] \<Rightarrow> s0
         | (first_def, first_json) # _ \<Rightarrow>
             (let first_shape = (case first_json of JObj d \<Rightarrow> d | _ \<Rightarrow> []);
                  s1 = dict_update s0
                         [(''type'', case dict_get first_shape ''type'' of Some t \<Rightarrow> t | None \<Rightarrow> JStr ''object''),
                          (''properties'', case dict_get first_shape ''properties'' of
                                             Some ps \<Rightarrow> ps | None \<Rightarrow> JObj []),
                          (''required'', case dict_get first_shape ''required'' of
                                           Some r \<Rightarrow> r | None \<Rightarrow> JArr [])];
                  s2 = copy_key first_shape s1 ''additionalProperties'';
                  s3 = foldl (copy_key first_shape) s2 [''allOf'', ''anyOf'', ''oneOf'', ''not''];
                  s4 = copy_key first_shape s3 ''title''
              in copy_key first_shape s4 ''description''))"

text \<open>\<^verbatim>\<open>convert\<close>: the document, and the converter with its definitions and warnings.\<close>

definition convert :: "nat \<Rightarrow> converter \<Rightarrow> (schema \<times> converter) exec" where
  "convert depth c =
     (let node_shapes = graph_subjects (graph c) (RDF ''type'') (SH ''NodeShape'')
      in if node_shapes = [] then Some (Inr (create_empty_schema, c))
         else bind (for_each (\<lambda>shape c'. convert_node_shape depth c' shape) node_shapes
                      (build_class_to_shape_map c node_shapes))
                (\<lambda>c'. Some (Inr (create_main_schema c', c'))))"

section \<open>When the walk of an RDF list ends\<close>

text \<open>
  The chain of \<^verbatim>\<open>rdf:rest\<close> links from a cell ends when it reaches \<^verbatim>\<open>rdf:nil\<close> or a
  cell whose \<^verbatim>\<open>rdf:rest\<close> is missing or false.
\<close>

inductive list_ends :: "rdf_graph \<Rightarrow> node \<Rightarrow> bool" for g :: rdf_graph where
  at_nil: "list_ends g rdf_nil"
| no_rest: "current \<noteq> rdf_nil \<Longrightarrow> \<not> is_set (graph_value g current (RDF ''rest''))
            \<Longrightarrow> list_ends g current"
| follow: "current \<noteq> rdf_nil \<Longrightarrow> graph_value g current (RDF ''rest'') = Some rest \<Longrightarrow> truthy rest
            \<Longrightarrow> list_ends g rest \<Longrightarrow> list_ends g current"

code_pred list_ends .



section \<open>Example graphs\<close>

definition ex :: "string \<Rightarrow> node" where
  "ex name = URIRef (''http://example.org/'' @ name)"

definition party_shape :: node where
  "party_shape = URIRef ''http://example.org/shapes#Party''"

text \<open>
  \<^verbatim>\<open>
  shapes:Party a sh:NodeShape ; sh:targetClass ex:Party ;
    sh:property [ sh:path ex:name ; sh:datatype xsd:string ; sh:minCount 1 ] ,
      [ sh:path ex:tag ; sh:datatype xsd:string ; sh:description "Tags" ;
        sh:minCount 2 ; sh:maxCount 3 ] ,
      [ sh:path ex:kind ; sh:datatype xsd:string ; sh:hasValue ex:Organisation ] ,
      [ sh:path ex:active ; sh:datatype xsd:boolean ; sh:in ( true false ) ] ,
      [ sh:path ex:legacy ; sh:datatype xsd:string ;
        sh:xone _:x ; sh:and _:a ; sh:sparql _:q ] ,
      [ sh:datatype xsd:string ] .
  \<close>
\<close>

definition party_graph :: rdf_graph where
  "party_graph =
     \<lparr>triples =
        [(party_shape, RDF ''type'', SH ''NodeShape''),
         (party_shape, SH ''targetClass'', ex ''Party''),
         (party_shape, SH ''property'', BNode ''name''),
         (party_shape, SH ''property'', BNode ''tag''),
         (party_shape, SH ''property'', BNode ''kind''),
         (party_shape, SH ''property'', BNode ''active''),
         (party_shape, SH ''property'', BNode ''legacy''),
         (party_shape, SH ''property'', BNode ''nopath''),
         (BNode ''name'', SH ''path'', ex ''name''),
         (BNode ''name'', SH ''datatype'', XSD ''string''),
         (BNode ''name'', SH ''minCount'', Literal ''1'' (PyInt 1)),
         (BNode ''tag'', SH ''path'', ex ''tag''),
         (BNode ''tag'', SH ''datatype'', XSD ''string''),
         (BNode ''tag'', SH ''description'', Literal ''Tags'' (PyStr ''Tags'')),
         (BNode ''tag'', SH ''minCount'', Literal ''2'' (PyInt 2)),
         (BNode ''tag'', SH ''maxCount'', Literal ''3'' (PyInt 3)),
         (BNode ''kind'', SH ''path'', ex ''kind''),
         (BNode ''kind'', SH ''datatype'', XSD ''string''),
         (BNode ''kind'', SH ''hasValue'', ex ''Organisation''),
         (BNode ''active'', SH ''path'', ex ''active''),
         (BNode ''active'', SH ''datatype'', XSD ''boolean''),
         (BNode ''active'', SH ''in'', BNode ''l1''),
         (BNode ''l1'', RDF ''first'', Literal ''true'' (PyBool True)),
         (BNode ''l1'', RDF ''rest'', BNode ''l2''),
         (BNode ''l2'', RDF ''first'', Literal ''false'' (PyBool False)),
         (BNode ''l2'', RDF ''rest'', rdf_nil),
         (BNode ''legacy'', SH ''path'', ex ''legacy''),
         (BNode ''legacy'', SH ''datatype'', XSD ''string''),
         (BNode ''legacy'', SH ''xone'', BNode ''x''),
         (BNode ''legacy'', SH ''and'', BNode ''a''),
         (BNode ''legacy'', SH ''sparql'', BNode ''q''),
         (BNode ''nopath'', SH ''datatype'', XSD ''string'')],
      namespaces = [(''ex'', ''http://example.org/'')]\<rparr>"

definition fresh :: "rdf_graph \<Rightarrow> string \<Rightarrow> converter" where
  "fresh g nm = \<lparr>graph = g, naming = nm, definitions = [], warnings = [],
                  class_to_shape_map = [], iri_to_term = []\<rparr>"

text \<open>
  The scenario of the quantity: \<^verbatim>\<open>[ sh:path ex:qty ; sh:datatype xsd:integer ;
  sh:minCount 0 ; sh:maxCount 5 ]\<close>.
\<close>

definition qty_graph :: rdf_graph where
  "qty_graph =
     \<lparr>triples =
        [(BNode ''qty'', SH ''path'', ex ''qty''),
         (BNode ''qty'', SH ''datatype'', XSD ''integer''),
         (BNode ''qty'', SH ''minCount'', Literal ''0'' (PyInt 0)),
         (BNode ''qty'', SH ''maxCount'', Literal ''5'' (PyInt 5))],
      namespaces = [(''ex'', ''http://example.org/'')]\<rparr>"

definition item_shape :: node where
  "item_shape = URIRef ''http://example.org/shapes#Item''"

text \<open>
  \<^verbatim>\<open>
  shapes:Item a sh:NodeShape ;
    sh:property [ sh:path <http://example.org/one#code> ; sh:datatype xsd:string ] ,
      [ sh:path <http://example.org/two#code> ; sh:datatype xsd:integer ] ,
      [ sh:path <http://example.org/ns#> ; sh:datatype xsd:string ; sh:minCount 1 ] ,
      [ sh:path ex:ref ; sh:nodeKind sh:IRI ; sh:maxCount 2 ] ,
      [ sh:path ex:const ; sh:hasValue ex:Fixed ; sh:maxCount 2 ] ,
      [ sh:sparql _:q ] .
  \<close>
\<close>

definition item_graph :: rdf_graph where
  "item_graph =
     \<lparr>triples =
        [(item_shape, RDF ''type'', SH ''NodeShape''),
         (item_shape, SH ''property'', BNode ''code1''),
         (item_shape, SH ''property'', BNode ''code2''),
         (item_shape, SH ''property'', BNode ''empty''),
         (item_shape, SH ''property'', BNode ''ref''),
         (item_shape, SH ''property'', BNode ''const''),
         (item_shape, SH ''property'', BNode ''orphan''),
         (BNode ''code1'', SH ''path'', URIRef ''http://example.org/one#code''),
         (BNode ''code1'', SH ''datatype'', XSD ''string''),
         (BNode ''code2'', SH ''path'', URIRef ''http://example.org/two#code''),
         (BNode ''code2'', SH ''datatype'', XSD ''integer''),
         (BNode ''empty'', SH ''path'', URIRef ''http://example.org/ns#''),
         (BNode ''empty'', SH ''datatype'', XSD ''string''),
         (BNode ''empty'', SH ''minCount'', Literal ''1'' (PyInt 1)),
         (BNode ''ref'', SH ''path'', ex ''ref''),
         (BNode ''ref'', SH ''nodeKind'', SH ''IRI''),
         (BNode ''ref'', SH ''maxCount'', Literal ''2'' (PyInt 2)),
         (BNode ''const'', SH ''path'', ex ''const''),
         (BNode ''const'', SH ''hasValue'', ex ''Fixed''),
         (BNode ''const'', SH ''maxCount'', Literal ''2'' (PyInt 2)),
         (BNode ''orphan'', SH ''sparql'', BNode ''q'')],
      namespaces = [(''ex'', ''http://example.org/'')]\<rparr>"


text \<open>A list whose only cell is its own rest: \<^verbatim>\<open>_:loop rdf:first ex:x ; rdf:rest _:loop\<close>.\<close>

definition cyclic_graph :: rdf_graph where
  "cyclic_graph =
     \<lparr>triples = [(BNode ''loop'', RDF ''first'', ex ''x''),
                 (BNode ''loop'', RDF ''rest'', BNode ''loop'')],
      namespaces = []\<rparr>"


section \<open>Properties of the converter\<close>

subsection \<open>Dictionaries\<close>

lemma dict_get_dict_set: "dict_get (dict_set d k v) k' = (if k' = k then Some v else dict_get d k')"
  by (induction d) (auto simp: dict_get_def)

lemma has_key_dict_get: "has_key d k = (dict_get d k \<noteq> None)"
  by (simp add: has_key_def dict_get_def)

lemma has_key_dict_set: "has_key (dict_set d k v) k' = (k' = k \<or> has_key d k')"
  by (simp add: has_key_dict_get dict_get_dict_set)

lemma dict_get_without: "dict_get (filter (\<lambda>(k, v). k \<noteq> x) d) k = (if k = x then None else dict_get d k)"
  by (induction d) (auto simp: dict_get_def)

subsection \<open>The quantity scenario\<close>

lemma qty_values:
  "graph_value qty_graph (BNode ''qty'') (SH ''path'') = Some (ex ''qty'')"
  "graph_value qty_graph (BNode ''qty'') (SH ''datatype'') = Some (XSD ''integer'')"
  "graph_value qty_graph (BNode ''qty'') (SH ''minCount'') = Some (Literal ''0'' (PyInt 0))"
  "graph_value qty_graph (BNode ''qty'') (SH ''maxCount'') = Some (Literal ''5'' (PyInt 5))"
  "graph_value qty_graph (BNode ''qty'') (SH ''hasValue'') = None"
  "graph_value qty_graph (BNode ''qty'') (SH ''or'') = None"
  "graph_value qty_graph (BNode ''qty'') (SH ''description'') = None"
  "graph_value qty_graph (BNode ''qty'') (SH ''message'') = None"
  by code_simp+

lemma qty_objects:
  "graph_objects qty_graph (BNode ''qty'') (SH ''in'') = []"
  "graph_objects qty_graph (BNode ''qty'') (SH ''xone'') = []"
  "graph_objects qty_graph (BNode ''qty'') (SH ''and'') = []"
  "graph_objects qty_graph (BNode ''qty'') (SH ''sparql'') = []"
  by code_simp+

lemma qty_literals:
  "get_literal_value qty_graph (BNode ''qty'') (SH ''minInclusive'') = None"
  "get_literal_value qty_graph (BNode ''qty'') (SH ''maxInclusive'') = None"
  "get_literal_value qty_graph (BNode ''qty'') (SH ''minExclusive'') = None"
  "get_literal_value qty_graph (BNode ''qty'') (SH ''maxExclusive'') = None"
  "get_literal_value qty_graph (BNode ''qty'') (SH ''minLength'') = None"
  "get_literal_value qty_graph (BNode ''qty'') (SH ''maxLength'') = None"
  "get_literal_value qty_graph (BNode ''qty'') (SH ''pattern'') = None"
  "get_literal_value qty_graph (BNode ''qty'') (SH ''minCount'') = None"
  "get_literal_value qty_graph (BNode ''qty'') (SH ''maxCount'') = Some ''5''"
  by code_simp+

lemma py_int_5: "py_int ''5'' = Some 5"
  by code_simp

lemma qty_type_stage:
  "graph c = qty_graph \<Longrightarrow> type_stage c (BNode ''qty'') nm (describe qty_graph (BNode ''qty''))
     = Some ([(''type'', JStr ''integer'')], c)"
  by (simp add: type_stage_def describe_def get_literal_value_def qty_values is_set_def truthy_def
      ex_def XSD_def datatype_schema_def xsd_to_json_type_def xsd_to_json_format_def dict_get_def)

lemma qty_cardinality:
  "cardinality_stage qty_graph (BNode ''qty'') [(''type'', JStr ''integer'')]
     = Inr ([(''type'', JStr ''array''), (''items'', JObj [(''type'', JStr ''integer'')]),
             (''maxItems'', JInt 5)], False)"
  by (simp add: cardinality_stage_def qty_literals int_of_optional_def py_int_5 more_than_one_def
      array_def_def has_key_def dict_get_def)

text \<open>
  Claim C1. The property shape \<^verbatim>\<open>sh:path ex:qty, sh:datatype xsd:integer, sh:minCount 0,
  sh:maxCount 5\<close> is translated, whatever the naming strategy and the rest of the converter
  state, to exactly \<^verbatim>\<open>{"type":"array","items":{"type":"integer"},"maxItems":5}\<close>, which has no
  \<^verbatim>\<open>minItems\<close> key: the literal \<open>0\<close> is false, so \<^verbatim>\<open>_get_literal_value\<close> reads
  \<^verbatim>\<open>sh:minCount\<close> as absent.
\<close>

theorem quantity_scenario:
  "convert_property_shape (c\<lparr>graph := qty_graph\<rparr>) (BNode ''qty'')
     = Some (Inr ((Some (get_property_name (c\<lparr>graph := qty_graph\<rparr>) (ex ''qty'')),
                   [(''type'', JStr ''array''), (''items'', JObj [(''type'', JStr ''integer'')]),
                    (''maxItems'', JInt 5)],
                   False),
                  c\<lparr>graph := qty_graph\<rparr>))
   \<and> \<not> has_key [(''type'', JStr ''array''), (''items'', JObj [(''type'', JStr ''integer'')]),
                  (''maxItems'', JInt 5)] ''minItems''"
  by (simp add: convert_property_shape_def qty_values is_set_def truthy_def ex_def qty_type_stage
      ref_stage_def dict_get_def bind_def lift_def qty_cardinality enum_stage_def qty_objects
      bounds_stage_def bounds_def qty_literals set_float_def set_int_def set_pattern_def then_do_def
      target_of_def items_of_def with_target_def unconvertible_stage_def has_key_def)

subsection \<open>Property shapes without a path\<close>

text \<open>
  Claim C10. For a property shape without a (true) \<^verbatim>\<open>sh:path\<close> the translation returns no
  name, an empty schema and not required; the loop over the properties of the node shape goes on
  with the same \<open>properties\<close> and \<open>required\<close>; and the only change of the converter is one
  more warning at the end of the list.
\<close>

theorem no_path_no_property:
  assumes "\<not> is_set (graph_value (graph c) prop_shape (SH ''path''))"
  shows "convert_property_shape c prop_shape
           = Some (Inr ((None, [], False),
                add_warning c (''Property shape without sh:path found: '' @ node_str prop_shape)))
       \<and> for_each property_step (prop_shape # rest) ((properties, required), c)
           = for_each property_step rest ((properties, required),
                add_warning c (''Property shape without sh:path found: '' @ node_str prop_shape))
       \<and> warnings (add_warning c (''Property shape without sh:path found: '' @ node_str prop_shape))
           = warnings c @ [''Property shape without sh:path found: '' @ node_str prop_shape]"
  using assms by (simp add: convert_property_shape_def property_step_def bind_def add_warning_def)

theorem no_path_witness:
  "\<not> is_set (graph_value (graph (fresh party_graph ''curie'')) (BNode ''nopath'') (SH ''path''))
   \<and> convert_property_shape (fresh party_graph ''curie'') (BNode ''nopath'')
        = Some (Inr ((None, [], False),
             (fresh party_graph ''curie'')\<lparr>warnings := [''Property shape without sh:path found: nopath'']\<rparr>))"
proof -
  have h: "\<not> is_set (graph_value (graph (fresh party_graph ''curie'')) (BNode ''nopath'') (SH ''path''))"
    by code_simp
  have w: "add_warning (fresh party_graph ''curie'')
             (''Property shape without sh:path found: '' @ node_str (BNode ''nopath''))
           = (fresh party_graph ''curie'')\<lparr>warnings := [''Property shape without sh:path found: nopath'']\<rparr>"
    by (simp add: add_warning_def fresh_def node_str_def)
  from no_path_no_property[OF h] w h show ?thesis by simp
qed

subsection \<open>Walking RDF lists\<close>

lemma cyclic_step:
  "list_nodes_loop cyclic_graph (BNode ''loop'') acc
     = list_nodes_loop cyclic_graph (BNode ''loop'') (acc @ [ex ''x''])"
  by (subst list_nodes_loop.simps)
     (simp add: cyclic_graph_def graph_value_def graph_objects_def rdf_nil_def RDF_def truthy_def)

lemma nodes_loop_ends: "list_nodes_loop g current acc = Some ys \<Longrightarrow> list_ends g current"
proof (induction rule: list_nodes_loop.raw_induct[rotated 1, consumes 1])
  case (1 loop g current nodes ys)
  show ?case
  proof (cases "current = rdf_nil")
    case True
    then show ?thesis by (simp add: list_ends.at_nil)
  next
    case False
    show ?thesis
    proof (cases "graph_value g current (RDF ''rest'')")
      case None
      then show ?thesis using False by (auto intro: list_ends.no_rest simp: is_set_def)
    next
      case (Some rest)
      show ?thesis
      proof (cases "truthy rest")
        case True
        with 1 False Some have "list_ends g rest" by (auto simp: Let_def)
        with False Some True show ?thesis by (rule list_ends.follow)
      next
        case nt: False
        with False Some show ?thesis by (auto intro: list_ends.no_rest simp: is_set_def)
      qed
    qed
  qed
qed

lemma values_loop_ends: "list_values_loop g current acc = Some ys \<Longrightarrow> list_ends g current"
proof (induction rule: list_values_loop.raw_induct[rotated 1, consumes 1])
  case (1 loop g current nodes ys)
  show ?case
  proof (cases "current = rdf_nil")
    case True
    then show ?thesis by (simp add: list_ends.at_nil)
  next
    case False
    show ?thesis
    proof (cases "graph_value g current (RDF ''rest'')")
      case None
      then show ?thesis using False by (auto intro: list_ends.no_rest simp: is_set_def)
    next
      case (Some rest)
      show ?thesis
      proof (cases "truthy rest")
        case True
        with 1 False Some have "list_ends g rest" by (auto simp: Let_def)
        with False Some True show ?thesis by (rule list_ends.follow)
      next
        case nt: False
        with False Some show ?thesis by (auto intro: list_ends.no_rest simp: is_set_def)
      qed
    qed
  qed
qed

lemma ends_nodes_loop: "list_ends g current \<Longrightarrow> \<exists>ys. list_nodes_loop g current acc = Some ys"
proof (induction arbitrary: acc rule: list_ends.induct)
  case at_nil
  show ?case by (subst list_nodes_loop.simps) simp
next
  case (no_rest current)
  then show ?case
    by (subst list_nodes_loop.simps) (auto simp: is_set_def Let_def split: option.splits)
next
  case (follow current rest)
  then show ?case
    by (subst list_nodes_loop.simps) (simp add: Let_def)
qed

lemma ends_values_loop: "list_ends g current \<Longrightarrow> \<exists>ys. list_values_loop g current acc = Some ys"
proof (induction arbitrary: acc rule: list_ends.induct)
  case at_nil
  show ?case by (subst list_values_loop.simps) simp
next
  case (no_rest current)
  then show ?case
    by (subst list_values_loop.simps) (auto simp: is_set_def Let_def split: option.splits)
next
  case (follow current rest)
  then show ?case
    by (subst list_values_loop.simps) (simp add: Let_def)
qed

text \<open>
  Claim C3, as stated, fails: the walk has no cycle or length guard. On a list cell that is its
  own \<^verbatim>\<open>rdf:rest\<close> neither \<^verbatim>\<open>_extract_list_nodes\<close> nor \<^verbatim>\<open>_extract_list_values\<close>
  returns.
\<close>

theorem cyclic_list_never_returns:
  "extract_list_nodes cyclic_graph (BNode ''loop'') = None
   \<and> extract_list_values cyclic_graph (BNode ''loop'') = None"
proof -
  have no: "\<not> list_ends cyclic_graph n" if "n = BNode ''loop''" for n
  proof
    assume "list_ends cyclic_graph n"
    then show False using that
    proof (induction rule: list_ends.induct)
      case at_nil
      then show ?case by (simp add: rdf_nil_def RDF_def)
    next
      case (no_rest current)
      then show ?case
        by (simp add: is_set_def cyclic_graph_def graph_value_def graph_objects_def RDF_def truthy_def)
    next
      case (follow current rest)
      then show ?case
        by (simp add: cyclic_graph_def graph_value_def graph_objects_def RDF_def)
    qed
  qed
  have "extract_list_nodes cyclic_graph (BNode ''loop'') = None"
    using nodes_loop_ends[of cyclic_graph "BNode ''loop''" "[]"] no
    by (cases "extract_list_nodes cyclic_graph (BNode ''loop'')") (auto simp: extract_list_nodes_def)
  moreover have "extract_list_values cyclic_graph (BNode ''loop'') = None"
    using values_loop_ends[of cyclic_graph "BNode ''loop''" "[]"] no
    by (cases "extract_list_values cyclic_graph (BNode ''loop'')") (auto simp: extract_list_values_def)
  ultimately show ?thesis by simp
qed

text \<open>
  Claim C3, amended. The walk of an RDF list returns exactly when the chain of \<^verbatim>\<open>rdf:rest\<close>
  links from the head reaches \<^verbatim>\<open>rdf:nil\<close> or a cell without a true \<^verbatim>\<open>rdf:rest\<close>.
\<close>

theorem list_walk_returns_iff_chain_ends:
  "((\<exists>nodes. extract_list_nodes g list_node = Some nodes) \<longleftrightarrow> list_ends g list_node)
   \<and> ((\<exists>vals. extract_list_values g list_node = Some vals) \<longleftrightarrow> list_ends g list_node)"
  unfolding extract_list_nodes_def extract_list_values_def
  using nodes_loop_ends values_loop_ends ends_nodes_loop ends_values_loop by blast

theorem list_walk_witness:
  "list_ends party_graph (BNode ''l1'')
   \<and> extract_list_nodes party_graph (BNode ''l1'')
        = Some [Literal ''true'' (PyBool True), Literal ''false'' (PyBool False)]
   \<and> extract_list_values party_graph (BNode ''l1'') = Some [JBool True, JBool False]"
proof -
  have n: "extract_list_nodes party_graph (BNode ''l1'')
        = Some [Literal ''true'' (PyBool True), Literal ''false'' (PyBool False)]"
    by code_simp
  have v: "extract_list_values party_graph (BNode ''l1'') = Some [JBool True, JBool False]"
    by code_simp
  from n list_walk_returns_iff_chain_ends[of party_graph "BNode ''l1''"]
  have "list_ends party_graph (BNode ''l1'')" by simp
  with n v show ?thesis by simp
qed


subsection \<open>Terms of distinct IRIs\<close>










subsection \<open>Only the warnings of the converter change\<close>

lemma add_warning_fields:
  "graph (add_warning c w) = graph c" "naming (add_warning c w) = naming c"
  "iri_to_term (add_warning c w) = iri_to_term c"
  "class_to_shape_map (add_warning c w) = class_to_shape_map c"
  "definitions (add_warning c w) = definitions c"
  "warnings (add_warning c w) = warnings c @ [w]"
  by (simp_all add: add_warning_def)






lemma unconvertible_result:
  "unconvertible_stage c ps n d =
     (if graph_objects (graph c) ps (SH ''sparql'') \<noteq> []
      then dict_set d ''$comment''
             (JStr (strip (comment_of d @ '' Contains sh:sparql constraint not convertible to JSON Schema'')))
      else d,
      c\<lparr>warnings := warnings c
         @ (if graph_objects (graph c) ps (SH ''xone'') \<noteq> []
            then [''sh:xone found in '' @ n @ '' - partial conversion to oneOf''] else [])
         @ (if graph_objects (graph c) ps (SH ''and'') \<noteq> []
            then [''sh:and found in '' @ n @ '' - partial conversion to allOf''] else [])
         @ (if graph_objects (graph c) ps (SH ''sparql'') \<noteq> []
            then [''sh:sparql found in '' @ n @ '' - CANNOT be converted to JSON Schema''] else [])\<rparr>)"
  by (simp add: unconvertible_stage_def Let_def add_warning_def)


subsection \<open>The stages a returned translation went through\<close>

lemma convert_property_shape_stages:
  assumes "convert_property_shape c ps = Some (Inr ((nm, d, req), c'))"
    and "graph_value (graph c) ps (SH ''path'') = Some path" and "truthy path"
  obtains d1 c1 d2 d3 d4 where
    "type_stage c ps (get_property_name c path) (describe (graph c) ps) = Some (d1, c1)"
    "cardinality_stage (graph c) ps (ref_stage d1) = Inr (d2, req)"
    "enum_stage (graph c) ps d2 = Some d3"
    "bounds_stage (graph c) ps d3 = Inr d4"
    "unconvertible_stage c1 ps (get_property_name c path) d4 = (d, c')"
    "nm = Some (get_property_name c path)"
  using assms
  by (auto simp: convert_property_shape_def is_set_def Let_def bind_def lift_def
      split: option.splits sum.splits prod.splits if_splits)




subsection \<open>Required properties\<close>




lemma node_or_stage_keeps:
  "node_or_stage depth c sh nm props d = Some (Inr ((props', d'), c')) \<Longrightarrow> k \<noteq> ''anyOf''
   \<Longrightarrow> dict_get d' k = dict_get d k"
  by (auto simp: node_or_stage_def bind_def Let_def dict_get_dict_set
      split: option.splits sum.splits prod.splits if_splits)





subsection \<open>The schema of the value, or of the array item\<close>

lemma items_of_Some:
  "items_of d = Some it \<longleftrightarrow> dict_get d ''type'' = Some (JStr ''array'') \<and> dict_get d ''items'' = Some (JObj it)"
  by (auto simp: items_of_def split: option.splits json.splits if_splits)

lemma items_of_same:
  "dict_get d' ''type'' = dict_get d ''type'' \<Longrightarrow> dict_get d' ''items'' = dict_get d ''items''
   \<Longrightarrow> items_of d' = items_of d"
  by (simp add: items_of_def)

lemma with_target_update:
  assumes pres: "\<And>k. k \<notin> K \<Longrightarrow> dict_get t k = dict_get (target_of d) k"
    and K: "''type'' \<notin> K" "''items'' \<notin> K"
  shows "target_of (with_target d t) = t"
    and "k \<notin> K \<Longrightarrow> k \<noteq> ''items'' \<Longrightarrow> dict_get (with_target d t) k = dict_get d k"
    and "(items_of (with_target d t) = None) = (items_of d = None)"
    and "has_key (with_target d t) ''items'' = has_key d ''items''"
proof -
  have ty: "dict_get t ''type'' = dict_get (target_of d) ''type''"
    and it: "dict_get t ''items'' = dict_get (target_of d) ''items''"
    using pres K by simp_all
  show "target_of (with_target d t) = t"
  proof (cases "items_of d")
    case None
    then have "items_of t = None" using items_of_same[of t d] ty it by (simp add: target_of_def)
    with None show ?thesis by (simp add: target_of_def with_target_def)
  next
    case (Some x)
    then have "items_of (dict_set d ''items'' (JObj t)) = Some t"
      by (simp add: items_of_Some dict_get_dict_set)
    with Some show ?thesis by (simp add: target_of_def with_target_def)
  qed
  show "dict_get (with_target d t) k = dict_get d k" if "k \<notin> K" "k \<noteq> ''items''"
    using that pres[of k] by (cases "items_of d") (simp_all add: with_target_def target_of_def dict_get_dict_set)
  show "(items_of (with_target d t) = None) = (items_of d = None)"
  proof (cases "items_of d")
    case None
    then have "items_of t = None" using items_of_same[of t d] ty it by (simp add: target_of_def)
    with None show ?thesis by (simp add: with_target_def)
  next
    case (Some x)
    then have "items_of (dict_set d ''items'' (JObj t)) = Some t"
      by (simp add: items_of_Some dict_get_dict_set)
    with Some show ?thesis by (simp add: with_target_def)
  qed
  show "has_key (with_target d t) ''items'' = has_key d ''items''"
  proof (cases "items_of d")
    case None
    then show ?thesis using it by (simp add: with_target_def target_of_def has_key_dict_get)
  next
    case (Some x)
    then have "with_target d t = dict_set d ''items'' (JObj t)" by (simp add: with_target_def)
    moreover from Some have "dict_get d ''items'' = Some (JObj x)" by (simp add: items_of_Some)
    ultimately show ?thesis by (simp add: has_key_dict_get dict_get_dict_set)
  qed
qed

lemma top_level_update:
  assumes "k0 \<noteq> ''type''" "k0 \<noteq> ''items''"
  shows "k \<noteq> k0 \<Longrightarrow> dict_get (target_of (dict_set d k0 v)) k = dict_get (target_of d) k"
    and "k \<noteq> k0 \<Longrightarrow> dict_get (dict_set d k0 v) k = dict_get d k"
    and "(items_of (dict_set d k0 v) = None) = (items_of d = None)"
    and "has_key (dict_set d k0 v) ''items'' = has_key d ''items''"
proof -
  have io: "items_of (dict_set d k0 v) = items_of d"
    using assms by (intro items_of_same) (simp_all add: dict_get_dict_set)
  show "dict_get (target_of (dict_set d k0 v)) k = dict_get (target_of d) k" if "k \<noteq> k0"
    using that io by (cases "items_of d") (simp_all add: target_of_def dict_get_dict_set)
  show "dict_get (dict_set d k0 v) k = dict_get d k" if "k \<noteq> k0"
    using that by (simp add: dict_get_dict_set)
  show "(items_of (dict_set d k0 v) = None) = (items_of d = None)" using io by simp
  show "has_key (dict_set d k0 v) ''items'' = has_key d ''items''"
    using assms by (simp add: has_key_dict_get dict_get_dict_set)
qed

subsection \<open>What the stages after the cardinality keep\<close>

lemma set_enum_keeps:
  shows "k \<noteq> ''enum'' \<Longrightarrow> dict_get (target_of (set_enum vs d)) k = dict_get (target_of d) k"
    and "k \<noteq> ''enum'' \<Longrightarrow> k \<noteq> ''items'' \<Longrightarrow> dict_get (set_enum vs d) k = dict_get d k"
    and "(items_of (set_enum vs d) = None) = (items_of d = None)"
    and "has_key (set_enum vs d) ''items'' = has_key d ''items''"
proof -
  let ?t = "dict_set (target_of d) ''enum'' (JArr vs)"
  have pres: "\<And>k. k \<notin> {''enum''} \<Longrightarrow> dict_get ?t k = dict_get (target_of d) k"
    by (simp add: dict_get_dict_set)
  note w = with_target_update[of "{''enum''}" ?t d, OF pres]
  show "dict_get (target_of (set_enum vs d)) k = dict_get (target_of d) k" if "k \<noteq> ''enum''"
    using that w(1) by (simp add: set_enum_def Let_def dict_get_dict_set)
  show "dict_get (set_enum vs d) k = dict_get d k" if "k \<noteq> ''enum''" "k \<noteq> ''items''"
    using that w(2)[of k] by (simp add: set_enum_def Let_def)
  show "(items_of (set_enum vs d) = None) = (items_of d = None)"
    using w(3) by (simp add: set_enum_def Let_def)
  show "has_key (set_enum vs d) ''items'' = has_key d ''items''"
    using w(4) by (simp add: set_enum_def Let_def)
qed

lemma enum_stage_keeps:
  assumes "enum_stage g ps d = Some d'"
  shows "k \<noteq> ''enum'' \<Longrightarrow> dict_get (target_of d') k = dict_get (target_of d) k"
    and "k \<noteq> ''enum'' \<Longrightarrow> k \<noteq> ''items'' \<Longrightarrow> dict_get d' k = dict_get d k"
    and "(items_of d' = None) = (items_of d = None)"
    and "has_key d' ''items'' = has_key d ''items''"
proof -
  from assms have "d' = d \<or> (\<exists>vs. d' = set_enum vs d)"
    by (auto simp: enum_stage_def split: list.splits option.splits if_splits)
  then show "k \<noteq> ''enum'' \<Longrightarrow> dict_get (target_of d') k = dict_get (target_of d) k"
    and "k \<noteq> ''enum'' \<Longrightarrow> k \<noteq> ''items'' \<Longrightarrow> dict_get d' k = dict_get d k"
    and "(items_of d' = None) = (items_of d = None)"
    and "has_key d' ''items'' = has_key d ''items''"
    using set_enum_keeps by auto
qed

lemma set_float_keeps: "set_float key x t = Inr t' \<Longrightarrow> k \<noteq> key \<Longrightarrow> dict_get t' k = dict_get t k"
  by (auto simp: set_float_def dict_get_dict_set split: option.splits)

lemma set_int_keeps: "set_int key x t = Inr t' \<Longrightarrow> k \<noteq> key \<Longrightarrow> dict_get t' k = dict_get t k"
  by (auto simp: set_int_def dict_get_dict_set split: option.splits)

lemma set_pattern_keeps: "k \<noteq> ''pattern'' \<Longrightarrow> dict_get (set_pattern x t) k = dict_get t k"
  by (auto simp: set_pattern_def dict_get_dict_set split: option.splits)

lemma then_do_Inr: "then_do m f = Inr y \<longleftrightarrow> (\<exists>x. m = Inr x \<and> f x = Inr y)"
  by (cases m) (auto simp: then_do_def)

lemma bounds_keeps:
  assumes "bounds g ps t = Inr t'"
    and "k \<notin> {''minimum'', ''maximum'', ''exclusiveMinimum'', ''exclusiveMaximum'',
               ''minLength'', ''maxLength'', ''pattern''}"
  shows "dict_get t' k = dict_get t k"
proof -
  from assms(1) obtain t1 t2 t3 t4 t5 t6 where
    s: "set_float ''minimum'' (get_literal_value g ps (SH ''minInclusive'')) t = Inr t1"
       "set_float ''maximum'' (get_literal_value g ps (SH ''maxInclusive'')) t1 = Inr t2"
       "set_float ''exclusiveMinimum'' (get_literal_value g ps (SH ''minExclusive'')) t2 = Inr t3"
       "set_float ''exclusiveMaximum'' (get_literal_value g ps (SH ''maxExclusive'')) t3 = Inr t4"
       "set_int ''minLength'' (get_literal_value g ps (SH ''minLength'')) t4 = Inr t5"
       "set_int ''maxLength'' (get_literal_value g ps (SH ''maxLength'')) t5 = Inr t6"
       "t' = set_pattern (get_literal_value g ps (SH ''pattern'')) t6"
    unfolding bounds_def then_do_Inr by auto
  from assms(2) have ne: "k \<noteq> ''minimum''" "k \<noteq> ''maximum''" "k \<noteq> ''exclusiveMinimum''"
    "k \<noteq> ''exclusiveMaximum''" "k \<noteq> ''minLength''" "k \<noteq> ''maxLength''" "k \<noteq> ''pattern''"
    by simp_all
  have "dict_get t' k = dict_get t6 k" using s(7) ne(7) by (simp add: set_pattern_keeps)
  also have "\<dots> = dict_get t5 k" using set_int_keeps[OF s(6) ne(6)] .
  also have "\<dots> = dict_get t4 k" using set_int_keeps[OF s(5) ne(5)] .
  also have "\<dots> = dict_get t3 k" using set_float_keeps[OF s(4) ne(4)] .
  also have "\<dots> = dict_get t2 k" using set_float_keeps[OF s(3) ne(3)] .
  also have "\<dots> = dict_get t1 k" using set_float_keeps[OF s(2) ne(2)] .
  also have "\<dots> = dict_get t k" using set_float_keeps[OF s(1) ne(1)] .
  finally show ?thesis .
qed

lemma bounds_stage_keeps:
  assumes "bounds_stage g ps d = Inr d'"
  shows "k \<notin> {''minimum'', ''maximum'', ''exclusiveMinimum'', ''exclusiveMaximum'',
               ''minLength'', ''maxLength'', ''pattern''}
         \<Longrightarrow> dict_get (target_of d') k = dict_get (target_of d) k"
    and "k \<notin> {''minimum'', ''maximum'', ''exclusiveMinimum'', ''exclusiveMaximum'',
               ''minLength'', ''maxLength'', ''pattern''}
         \<Longrightarrow> k \<noteq> ''items'' \<Longrightarrow> dict_get d' k = dict_get d k"
    and "(items_of d' = None) = (items_of d = None)"
    and "has_key d' ''items'' = has_key d ''items''"
proof -
  let ?K = "{''minimum'', ''maximum'', ''exclusiveMinimum'', ''exclusiveMaximum'',
               ''minLength'', ''maxLength'', ''pattern''}"
  from assms obtain t where t: "bounds g ps (target_of d) = Inr t" and d': "d' = with_target d t"
    unfolding bounds_stage_def then_do_Inr by auto
  have pres: "dict_get t k = dict_get (target_of d) k" if "k \<notin> ?K" for k
    using t that by (rule bounds_keeps)
  have K: "''type'' \<notin> ?K" "''items'' \<notin> ?K" by simp_all
  note w = with_target_update[of ?K t d, OF pres K]
  show "k \<notin> ?K \<Longrightarrow> dict_get (target_of d') k = dict_get (target_of d) k"
    using w(1) pres d' by simp
  show "k \<notin> ?K \<Longrightarrow> k \<noteq> ''items'' \<Longrightarrow> dict_get d' k = dict_get d k"
    using w(2) d' by simp
  show "(items_of d' = None) = (items_of d = None)" using w(3) d' by simp
  show "has_key d' ''items'' = has_key d ''items''" using w(4) d' by simp
qed

lemma unconvertible_keeps:
  assumes "unconvertible_stage c ps n d = (d', c')"
  shows "k \<noteq> ''$comment'' \<Longrightarrow> dict_get (target_of d') k = dict_get (target_of d) k"
    and "k \<noteq> ''$comment'' \<Longrightarrow> dict_get d' k = dict_get d k"
    and "(items_of d' = None) = (items_of d = None)"
    and "has_key d' ''items'' = has_key d ''items''"
proof -
  have ne: "''$comment'' \<noteq> ''type''" "''$comment'' \<noteq> ''items''" by simp_all
  note u = top_level_update[OF ne]
  from assms have "d' = d \<or> (\<exists>v. d' = dict_set d ''$comment'' v)"
    unfolding unconvertible_result by (auto split: if_splits)
  then show "k \<noteq> ''$comment'' \<Longrightarrow> dict_get (target_of d') k = dict_get (target_of d) k"
    and "k \<noteq> ''$comment'' \<Longrightarrow> dict_get d' k = dict_get d k"
    and "(items_of d' = None) = (items_of d = None)"
    and "has_key d' ''items'' = has_key d ''items''"
    using u by auto
qed

lemma late_stages_keep:
  assumes "enum_stage g ps d2 = Some d3" and "bounds_stage g ps d3 = Inr d4"
    and "unconvertible_stage c ps n d4 = (d, c')"
    and "k \<notin> {''enum'', ''minimum'', ''maximum'', ''exclusiveMinimum'', ''exclusiveMaximum'',
               ''minLength'', ''maxLength'', ''pattern'', ''$comment''}"
  shows "dict_get (target_of d) k = dict_get (target_of d2) k"
    and "k \<noteq> ''items'' \<Longrightarrow> dict_get d k = dict_get d2 k"
    and "(items_of d = None) = (items_of d2 = None)"
    and "has_key d ''items'' = has_key d2 ''items''"
proof -
  from assms(4) have k: "k \<noteq> ''enum''" "k \<noteq> ''$comment''"
    "k \<notin> {''minimum'', ''maximum'', ''exclusiveMinimum'', ''exclusiveMaximum'',
               ''minLength'', ''maxLength'', ''pattern''}" by simp_all
  show "dict_get (target_of d) k = dict_get (target_of d2) k"
    using unconvertible_keeps(1)[OF assms(3) k(2)] bounds_stage_keeps(1)[OF assms(2) k(3)]
      enum_stage_keeps(1)[OF assms(1) k(1)] by simp
  show "dict_get d k = dict_get d2 k" if "k \<noteq> ''items''"
    using unconvertible_keeps(2)[OF assms(3) k(2)] bounds_stage_keeps(2)[OF assms(2) k(3) that]
      enum_stage_keeps(2)[OF assms(1) k(1) that] by simp
  show "(items_of d = None) = (items_of d2 = None)"
    using unconvertible_keeps(3)[OF assms(3)] bounds_stage_keeps(3)[OF assms(2)]
      enum_stage_keeps(3)[OF assms(1)] by simp
  show "has_key d ''items'' = has_key d2 ''items''"
    using unconvertible_keeps(4)[OF assms(3)] bounds_stage_keeps(4)[OF assms(2)]
      enum_stage_keeps(4)[OF assms(1)] by simp
qed




subsection \<open>Arrays\<close>

lemma cardinality_wrap:
  assumes "int_of_optional (get_literal_value g ps (SH ''minCount'')) = Some mn"
    and "int_of_optional (get_literal_value g ps (SH ''maxCount'')) = Some mx"
    and "more_than_one mx \<or> (mx = None \<and> more_than_one mn)"
  shows "cardinality_stage g ps p =
     Inr ([(''type'', JStr ''array'')]
          @ (if has_key p ''type'' \<or> has_key p ''$ref''
             then [(''items'', JObj (filter (\<lambda>(k, v). k \<noteq> ''description'') p))] else [])
          @ (case dict_get p ''description'' of Some desc \<Rightarrow> [(''description'', desc)] | None \<Rightarrow> [])
          @ (case mn of Some n \<Rightarrow> [(''minItems'', JInt n)] | None \<Rightarrow> [])
          @ (case mx of Some n \<Rightarrow> [(''maxItems'', JInt n)] | None \<Rightarrow> []),
          case mn of None \<Rightarrow> False | Some n \<Rightarrow> n \<ge> 1)"
  using assms
  by (auto simp: cardinality_stage_def Let_def array_def_def more_than_one_def
      split: option.splits)


text \<open>
  Claim C6, amended. For a translated property with \<^verbatim>\<open>sh:maxCount\<close> above one, or with
  \<^verbatim>\<open>sh:minCount\<close> above one and no \<^verbatim>\<open>sh:maxCount\<close>, the cardinality step yields exactly
  \<^verbatim>\<open>{"type":"array"}\<close> followed by \<^verbatim>\<open>items\<close> (the prior schema without its description)
  only when the prior schema has a \<^verbatim>\<open>type\<close> or \<^verbatim>\<open>$ref\<close> key, by the prior description
  when there is one, by \<^verbatim>\<open>minItems\<close> and by \<^verbatim>\<open>maxItems\<close> when the counts are read. The
  final schema has type \<^verbatim>\<open>array\<close>, the same description and bounds, and an \<^verbatim>\<open>items\<close> key
  under the same condition.
\<close>

theorem array_wrap:
  assumes "convert_property_shape c ps = Some (Inr ((nm, d, req), c'))"
    and "graph_value (graph c) ps (SH ''path'') = Some path" and "truthy path"
    and "type_stage c ps (get_property_name c path) (describe (graph c) ps) = Some (d1, c1)"
    and "int_of_optional (get_literal_value (graph c) ps (SH ''minCount'')) = Some mn"
    and "int_of_optional (get_literal_value (graph c) ps (SH ''maxCount'')) = Some mx"
    and "more_than_one mx \<or> (mx = None \<and> more_than_one mn)"
  shows "cardinality_stage (graph c) ps (ref_stage d1) =
           Inr ([(''type'', JStr ''array'')]
                @ (if has_key (ref_stage d1) ''type'' \<or> has_key (ref_stage d1) ''$ref''
                   then [(''items'', JObj (filter (\<lambda>(k, v). k \<noteq> ''description'') (ref_stage d1)))]
                   else [])
                @ (case dict_get (ref_stage d1) ''description'' of
                     Some desc \<Rightarrow> [(''description'', desc)] | None \<Rightarrow> [])
                @ (case mn of Some n \<Rightarrow> [(''minItems'', JInt n)] | None \<Rightarrow> [])
                @ (case mx of Some n \<Rightarrow> [(''maxItems'', JInt n)] | None \<Rightarrow> []),
                req)
       \<and> dict_get d ''type'' = Some (JStr ''array'')
       \<and> (has_key d ''items'' \<longleftrightarrow> has_key (ref_stage d1) ''type'' \<or> has_key (ref_stage d1) ''$ref'')
       \<and> dict_get d ''description'' = dict_get (ref_stage d1) ''description''
       \<and> dict_get d ''minItems'' = map_option JInt mn
       \<and> dict_get d ''maxItems'' = map_option JInt mx"
proof -
  let ?p = "ref_stage d1"
  let ?w = "[(''type'', JStr ''array'')]
            @ (if has_key ?p ''type'' \<or> has_key ?p ''$ref''
               then [(''items'', JObj (filter (\<lambda>(k, v). k \<noteq> ''description'') ?p))] else [])
            @ (case dict_get ?p ''description'' of Some desc \<Rightarrow> [(''description'', desc)] | None \<Rightarrow> [])
            @ (case mn of Some n \<Rightarrow> [(''minItems'', JInt n)] | None \<Rightarrow> [])
            @ (case mx of Some n \<Rightarrow> [(''maxItems'', JInt n)] | None \<Rightarrow> [])"
  from assms(1-3) obtain e1 f1 d2 d3 d4 where
    ts: "type_stage c ps (get_property_name c path) (describe (graph c) ps) = Some (e1, f1)"
    and cs: "cardinality_stage (graph c) ps (ref_stage e1) = Inr (d2, req)"
    and late: "enum_stage (graph c) ps d2 = Some d3" "bounds_stage (graph c) ps d3 = Inr d4"
      "unconvertible_stage f1 ps (get_property_name c path) d4 = (d, c')"
    by (rule convert_property_shape_stages)
  from ts assms(4) have e1: "e1 = d1" by simp
  note w = cardinality_wrap[OF assms(5-7), of ?p]
  from cs[unfolded e1] w have d2: "d2 = ?w"
    and req: "req = (case mn of None \<Rightarrow> False | Some n \<Rightarrow> n \<ge> 1)" by simp_all
  have first: "cardinality_stage (graph c) ps ?p = Inr (?w, req)" using w req by simp
  have ty: "dict_get ?w ''type'' = Some (JStr ''array'')" by (simp add: dict_get_def)
  have it: "has_key ?w ''items'' \<longleftrightarrow> has_key ?p ''type'' \<or> has_key ?p ''$ref''"
    by (simp add: has_key_def split: option.splits)
  have de: "dict_get ?w ''description'' = dict_get ?p ''description''"
    by (simp add: dict_get_def split: option.splits)
  have mi: "dict_get ?w ''minItems'' = map_option JInt mn"
    by (simp add: dict_get_def split: option.splits)
  have ma: "dict_get ?w ''maxItems'' = map_option JInt mx"
    by (simp add: dict_get_def split: option.splits)
  have k1: "dict_get d ''type'' = dict_get d2 ''type''"
    by (rule late_stages_keep(2)[OF late]) simp_all
  have k2: "has_key d ''items'' = has_key d2 ''items''"
    by (rule late_stages_keep(4)[OF late, of "''type''"]) simp
  have k3: "dict_get d ''description'' = dict_get d2 ''description''"
    by (rule late_stages_keep(2)[OF late]) simp_all
  have k4: "dict_get d ''minItems'' = dict_get d2 ''minItems''"
    by (rule late_stages_keep(2)[OF late]) simp_all
  have k5: "dict_get d ''maxItems'' = dict_get d2 ''maxItems''"
    by (rule late_stages_keep(2)[OF late]) simp_all
  show ?thesis
    using first ty it de mi ma k1 k2 k3 k4 k5 unfolding d2 by (intro conjI) simp_all
qed

lemma tag_translation:
  "convert_property_shape (fresh party_graph ''curie'') (BNode ''tag'')
     = Some (Inr ((Some ''ex:tag'',
                   [(''type'', JStr ''array''), (''items'', JObj [(''type'', JStr ''string'')]),
                    (''description'', JStr ''Tags''), (''minItems'', JInt 2), (''maxItems'', JInt 3)],
                   True),
                  fresh party_graph ''curie''))"
  by code_simp

theorem array_wrap_witness:
  "graph_value party_graph (BNode ''tag'') (SH ''path'') = Some (ex ''tag'')
   \<and> truthy (ex ''tag'')
   \<and> type_stage (fresh party_graph ''curie'') (BNode ''tag'') ''ex:tag'' (describe party_graph (BNode ''tag''))
        = Some ([(''description'', JStr ''Tags''), (''type'', JStr ''string'')], fresh party_graph ''curie'')
   \<and> int_of_optional (get_literal_value party_graph (BNode ''tag'') (SH ''minCount'')) = Some (Some 2)
   \<and> int_of_optional (get_literal_value party_graph (BNode ''tag'') (SH ''maxCount'')) = Some (Some 3)
   \<and> more_than_one (Some 3)
   \<and> convert_property_shape (fresh party_graph ''curie'') (BNode ''tag'')
     = Some (Inr ((Some ''ex:tag'',
                   [(''type'', JStr ''array''), (''items'', JObj [(''type'', JStr ''string'')]),
                    (''description'', JStr ''Tags''), (''minItems'', JInt 2), (''maxItems'', JInt 3)],
                   True),
                  fresh party_graph ''curie''))
   \<and> cardinality_stage party_graph (BNode ''tag'')
        (ref_stage [(''description'', JStr ''Tags''), (''type'', JStr ''string'')])
     = Inr ([(''type'', JStr ''array''), (''items'', JObj [(''type'', JStr ''string'')]),
             (''description'', JStr ''Tags''), (''minItems'', JInt 2), (''maxItems'', JInt 3)], True)"
proof -
  let ?c = "fresh party_graph ''curie''"
  have g: "graph ?c = party_graph" by (simp add: fresh_def)
  have h2: "graph_value party_graph (BNode ''tag'') (SH ''path'') = Some (ex ''tag'')" by code_simp
  have h3: "truthy (ex ''tag'')" by code_simp
  have n: "get_property_name ?c (ex ''tag'') = ''ex:tag''" by code_simp
  have h4: "type_stage ?c (BNode ''tag'') ''ex:tag'' (describe party_graph (BNode ''tag''))
        = Some ([(''description'', JStr ''Tags''), (''type'', JStr ''string'')], ?c)" by code_simp
  have h5: "int_of_optional (get_literal_value party_graph (BNode ''tag'') (SH ''minCount'')) = Some (Some 2)"
    by code_simp
  have h6: "int_of_optional (get_literal_value party_graph (BNode ''tag'') (SH ''maxCount'')) = Some (Some 3)"
    by code_simp
  have h7: "more_than_one (Some 3)" by (simp add: more_than_one_def)
  have r: "ref_stage [(''description'', JStr ''Tags''), (''type'', JStr ''string'')]
             = [(''description'', JStr ''Tags''), (''type'', JStr ''string'')]"
    by (simp add: ref_stage_def dict_get_def)
  from array_wrap[of ?c "BNode ''tag''" "Some ''ex:tag''" _ True ?c "ex ''tag''"
      "[(''description'', JStr ''Tags''), (''type'', JStr ''string'')]" ?c "Some 2" "Some 3",
      OF tag_translation] h2 h3 h4 h5 h6 h7 g n
  have "cardinality_stage party_graph (BNode ''tag'')
        (ref_stage [(''description'', JStr ''Tags''), (''type'', JStr ''string'')])
     = Inr ([(''type'', JStr ''array''), (''items'', JObj [(''type'', JStr ''string'')]),
             (''description'', JStr ''Tags''), (''minItems'', JInt 2), (''maxItems'', JInt 3)], True)"
    by (simp add: r has_key_def dict_get_def)
  with h2 h3 h4 h5 h6 h7 tag_translation show ?thesis by simp
qed

text \<open>
  Claim C6, as stated, fails: a property with \<^verbatim>\<open>sh:nodeKind sh:IRI\<close> and
  \<^verbatim>\<open>sh:maxCount 2\<close> has the prior schema \<^verbatim>\<open>{"anyOf": [...]}\<close>, which has neither \<^verbatim>\<open>type\<close>
  nor \<^verbatim>\<open>$ref\<close>; the translated schema is \<^verbatim>\<open>{"type":"array","maxItems":2}\<close>, without
  \<^verbatim>\<open>items\<close>.
\<close>

theorem array_without_items:
  "type_stage (fresh item_graph ''curie'') (BNode ''ref'') ''ex:ref'' (describe item_graph (BNode ''ref''))
     = Some ([(''anyOf'', JArr [uri_string_schema, JObj jsonld_id_object_schema])], fresh item_graph ''curie'')
   \<and> get_literal_value item_graph (BNode ''ref'') (SH ''maxCount'') = Some ''2''
   \<and> convert_property_shape (fresh item_graph ''curie'') (BNode ''ref'')
     = Some (Inr ((Some ''ex:ref'', [(''type'', JStr ''array''), (''maxItems'', JInt 2)], False),
                  fresh item_graph ''curie''))"
proof -
  have a: "type_stage (fresh item_graph ''curie'') (BNode ''ref'') ''ex:ref'' (describe item_graph (BNode ''ref''))
     = Some ([(''anyOf'', JArr [uri_string_schema, JObj jsonld_id_object_schema])], fresh item_graph ''curie'')"
    by code_simp
  have b: "get_literal_value item_graph (BNode ''ref'') (SH ''maxCount'') = Some ''2''" by code_simp
  have c: "convert_property_shape (fresh item_graph ''curie'') (BNode ''ref'')
     = Some (Inr ((Some ''ex:ref'', [(''type'', JStr ''array''), (''maxItems'', JInt 2)], False),
                  fresh item_graph ''curie''))" by code_simp
  from a b c show ?thesis by simp
qed

subsection \<open>Constants\<close>

lemma describe_keys: "k \<noteq> ''description'' \<Longrightarrow> dict_get (describe g ps) k = None"
  by (simp add: describe_def dict_get_def split: option.splits)

lemma type_stage_has_value:
  "graph_value (graph c) ps (SH ''hasValue'') = Some hv
   \<Longrightarrow> type_stage c ps n d0 = Some (has_value_schema c hv d0, c)"
  by (simp add: type_stage_def Let_def)

lemma has_value_schema_other:
  "k \<noteq> ''const'' \<Longrightarrow> k \<noteq> ''type'' \<Longrightarrow> dict_get (has_value_schema c hv d0) k = dict_get d0 k"
  by (simp add: has_value_schema_def dict_get_dict_set split: node.splits pyval.splits)

lemma has_value_schema_iri:
  "dict_get (has_value_schema c (URIRef u) d0) ''const'' = Some (JStr (get_property_name c (URIRef u)))"
  "dict_get (has_value_schema c (URIRef u) d0) ''type'' = Some (JStr ''string'')"
  by (simp_all add: has_value_schema_def dict_get_dict_set)

lemma has_value_schema_bool:
  "dict_get (has_value_schema c (Literal s (PyBool b)) d0) ''const'' = Some (JBool b)"
  "dict_get (has_value_schema c (Literal s (PyBool b)) d0) ''type'' = Some (JStr ''boolean'')"
  by (simp_all add: has_value_schema_def dict_get_dict_set)

lemma ref_stage_without_ref: "dict_get p ''$ref'' = None \<Longrightarrow> ref_stage p = p"
  by (simp add: ref_stage_def)

lemma array_def_with_type:
  assumes "has_key p ''type''"
  shows "dict_get (array_def p) ''type'' = Some (JStr ''array'')"
    and "dict_get (array_def p) ''items'' = Some (JObj (filter (\<lambda>(k, v). k \<noteq> ''description'') p))"
  using assms by (simp_all add: array_def_def Let_def dict_get_dict_set dict_get_def split: option.splits)

lemma cardinality_cases:
  assumes "cardinality_stage g ps p = Inr (d2, r)"
  shows "d2 = p \<or> (dict_get d2 ''type'' = dict_get (array_def p) ''type''
                  \<and> dict_get d2 ''items'' = dict_get (array_def p) ''items'')"
  using assms
  by (auto simp: cardinality_stage_def Let_def dict_get_dict_set split: option.splits if_splits)

lemma cardinality_target:
  assumes "cardinality_stage g ps p = Inr (d2, r)"
    and "has_key p ''type''" and "dict_get p ''type'' \<noteq> Some (JStr ''array'')"
  shows "k \<noteq> ''description'' \<Longrightarrow> dict_get (target_of d2) k = dict_get p k"
    and "(items_of d2 \<noteq> None) = (dict_get d2 ''type'' = Some (JStr ''array''))"
proof -
  from cardinality_cases[OF assms(1)]
  consider (same) "d2 = p"
    | (wrapped) "dict_get d2 ''type'' = Some (JStr ''array'')"
        "dict_get d2 ''items'' = Some (JObj (filter (\<lambda>(k, v). k \<noteq> ''description'') p))"
    using array_def_with_type[OF assms(2)] by auto
  then have "(k \<noteq> ''description'' \<longrightarrow> dict_get (target_of d2) k = dict_get p k)
      \<and> (items_of d2 \<noteq> None) = (dict_get d2 ''type'' = Some (JStr ''array''))"
  proof cases
    case same
    with assms(3) have "items_of d2 = None" by (simp add: items_of_def)
    with same assms(3) show ?thesis by (simp add: target_of_def)
  next
    case wrapped
    then have "items_of d2 = Some (filter (\<lambda>(k, v). k \<noteq> ''description'') p)"
      by (simp add: items_of_Some)
    with wrapped show ?thesis by (simp add: target_of_def dict_get_without)
  qed
  then show "k \<noteq> ''description'' \<Longrightarrow> dict_get (target_of d2) k = dict_get p k"
    and "(items_of d2 \<noteq> None) = (dict_get d2 ''type'' = Some (JStr ''array''))" by simp_all
qed

lemma has_value_final:
  assumes "convert_property_shape c ps = Some (Inr ((nm, d, req), c'))"
    and "graph_value (graph c) ps (SH ''path'') = Some path" and "truthy path"
    and "graph_value (graph c) ps (SH ''hasValue'') = Some hv"
    and "dict_get (has_value_schema c hv (describe (graph c) ps)) ''type'' = Some (JStr t)"
    and "t \<noteq> ''array''"
  shows "dict_get (target_of d) ''const'' = dict_get (has_value_schema c hv (describe (graph c) ps)) ''const''"
    and "dict_get (target_of d) ''type'' = Some (JStr t)"
    and "(items_of d \<noteq> None) = (dict_get d ''type'' = Some (JStr ''array''))"
proof -
  let ?p = "has_value_schema c hv (describe (graph c) ps)"
  from assms(1-3) obtain e1 f1 d2 d3 d4 where
    ts: "type_stage c ps (get_property_name c path) (describe (graph c) ps) = Some (e1, f1)"
    and cs: "cardinality_stage (graph c) ps (ref_stage e1) = Inr (d2, req)"
    and late: "enum_stage (graph c) ps d2 = Some d3" "bounds_stage (graph c) ps d3 = Inr d4"
      "unconvertible_stage f1 ps (get_property_name c path) d4 = (d, c')"
    by (rule convert_property_shape_stages)
  have "type_stage c ps (get_property_name c path) (describe (graph c) ps) = Some (?p, c)"
    using assms(4) by (rule type_stage_has_value)
  with ts have e1: "e1 = ?p" by auto
  have "dict_get ?p ''$ref'' = None"
    by (simp add: has_value_schema_other describe_keys)
  then have rs: "ref_stage ?p = ?p" by (rule ref_stage_without_ref)
  have hk: "has_key ?p ''type''" using assms(5) by (simp add: has_key_dict_get)
  have na: "dict_get ?p ''type'' \<noteq> Some (JStr ''array'')" using assms(5,6) by simp
  note ct = cardinality_target[OF cs[unfolded e1 rs] hk na]
  have "dict_get (target_of d) ''const'' = dict_get (target_of d2) ''const''"
    by (rule late_stages_keep(1)[OF late]) simp
  also have "\<dots> = dict_get ?p ''const''" by (rule ct(1)) simp
  finally show "dict_get (target_of d) ''const'' = dict_get ?p ''const''" .
  have "dict_get (target_of d) ''type'' = dict_get (target_of d2) ''type''"
    by (rule late_stages_keep(1)[OF late]) simp
  also have "\<dots> = dict_get ?p ''type''" by (rule ct(1)) simp
  finally show "dict_get (target_of d) ''type'' = Some (JStr t)" using assms(5) by simp
  have "dict_get d ''type'' = dict_get d2 ''type''"
    by (rule late_stages_keep(2)[OF late]) simp_all
  moreover have "(items_of d = None) = (items_of d2 = None)"
    by (rule late_stages_keep(3)[OF late, of "''type''"]) simp
  ultimately show "(items_of d \<noteq> None) = (dict_get d ''type'' = Some (JStr ''array''))"
    using ct(2) by simp
qed

text \<open>
  Claim C7, amended. For a translated property shape with \<^verbatim>\<open>sh:hasValue\<close>, the type step
  is the one of \<^verbatim>\<open>sh:hasValue\<close> whatever else the shape carries. When the value is an IRI,
  \<^verbatim>\<open>const\<close> is its resolved name and \<^verbatim>\<open>type\<close> is \<^verbatim>\<open>string\<close>; when it is a boolean
  literal, \<^verbatim>\<open>const\<close> is that boolean and \<^verbatim>\<open>type\<close> is \<^verbatim>\<open>boolean\<close>. The two keys are on
  the property schema, or on its \<^verbatim>\<open>items\<close> schema when the cardinality made the property an
  array, which is exactly when the property schema has type \<^verbatim>\<open>array\<close>.
\<close>

theorem has_value_const:
  assumes "convert_property_shape c ps = Some (Inr ((nm, d, req), c'))"
    and "graph_value (graph c) ps (SH ''path'') = Some path" and "truthy path"
    and "graph_value (graph c) ps (SH ''hasValue'') = Some hv"
  shows "(\<forall>n d0. type_stage c ps n d0 = Some (has_value_schema c hv d0, c))
       \<and> (\<forall>u. hv = URIRef u \<longrightarrow>
             dict_get (target_of d) ''const'' = Some (JStr (get_property_name c hv))
             \<and> dict_get (target_of d) ''type'' = Some (JStr ''string'')
             \<and> ((items_of d \<noteq> None) = (dict_get d ''type'' = Some (JStr ''array''))))
       \<and> (\<forall>s b. hv = Literal s (PyBool b) \<longrightarrow>
             dict_get (target_of d) ''const'' = Some (JBool b)
             \<and> dict_get (target_of d) ''type'' = Some (JStr ''boolean'')
             \<and> ((items_of d \<noteq> None) = (dict_get d ''type'' = Some (JStr ''array''))))"
proof (intro conjI allI impI)
  fix n d0
  show "type_stage c ps n d0 = Some (has_value_schema c hv d0, c)"
    using assms(4) by (rule type_stage_has_value)
next
  fix u assume u: "hv = URIRef u"
  have t: "dict_get (has_value_schema c hv (describe (graph c) ps)) ''type'' = Some (JStr ''string'')"
    unfolding u by (rule has_value_schema_iri)
  have ne: "''string'' \<noteq> ''array''" by simp
  note f = has_value_final[OF assms t ne]
  show "dict_get (target_of d) ''const'' = Some (JStr (get_property_name c hv))"
    using f(1) unfolding u by (simp add: has_value_schema_iri)
  show "dict_get (target_of d) ''type'' = Some (JStr ''string'')" by (rule f(2))
  show "(items_of d \<noteq> None) = (dict_get d ''type'' = Some (JStr ''array''))" by (rule f(3))
next
  fix s b assume l: "hv = Literal s (PyBool b)"
  have t: "dict_get (has_value_schema c hv (describe (graph c) ps)) ''type'' = Some (JStr ''boolean'')"
    unfolding l by (rule has_value_schema_bool)
  have ne: "''boolean'' \<noteq> ''array''" by simp
  note f = has_value_final[OF assms t ne]
  show "dict_get (target_of d) ''const'' = Some (JBool b)"
    using f(1) unfolding l by (simp add: has_value_schema_bool)
  show "dict_get (target_of d) ''type'' = Some (JStr ''boolean'')" by (rule f(2))
  show "(items_of d \<noteq> None) = (dict_get d ''type'' = Some (JStr ''array''))" by (rule f(3))
qed

lemma kind_translation:
  "convert_property_shape (fresh party_graph ''curie'') (BNode ''kind'')
     = Some (Inr ((Some ''ex:kind'', [(''const'', JStr ''ex:Organisation''), (''type'', JStr ''string'')],
                   False), fresh party_graph ''curie''))"
  by code_simp

theorem has_value_witness:
  "graph_value party_graph (BNode ''kind'') (SH ''path'') = Some (ex ''kind'')
   \<and> truthy (ex ''kind'')
   \<and> graph_value party_graph (BNode ''kind'') (SH ''hasValue'') = Some (ex ''Organisation'')
   \<and> graph_value party_graph (BNode ''kind'') (SH ''datatype'') = Some (XSD ''string'')
   \<and> convert_property_shape (fresh party_graph ''curie'') (BNode ''kind'')
     = Some (Inr ((Some ''ex:kind'', [(''const'', JStr ''ex:Organisation''), (''type'', JStr ''string'')],
                   False), fresh party_graph ''curie''))
   \<and> dict_get (target_of [(''const'', JStr ''ex:Organisation''), (''type'', JStr ''string'')]) ''const''
       = Some (JStr (get_property_name (fresh party_graph ''curie'') (ex ''Organisation'')))
   \<and> dict_get (target_of [(''const'', JStr ''ex:Organisation''), (''type'', JStr ''string'')]) ''type''
       = Some (JStr ''string'')"
proof -
  let ?c = "fresh party_graph ''curie''"
  have g: "graph ?c = party_graph" by (simp add: fresh_def)
  have h2: "graph_value party_graph (BNode ''kind'') (SH ''path'') = Some (ex ''kind'')" by code_simp
  have h3: "truthy (ex ''kind'')" by code_simp
  have h4: "graph_value party_graph (BNode ''kind'') (SH ''hasValue'') = Some (ex ''Organisation'')"
    by code_simp
  have h5: "graph_value party_graph (BNode ''kind'') (SH ''datatype'') = Some (XSD ''string'')"
    by code_simp
  have e: "ex ''Organisation'' = URIRef ''http://example.org/Organisation''" by (simp add: ex_def)
  from has_value_const[of ?c "BNode ''kind''" "Some ''ex:kind''"
      "[(''const'', JStr ''ex:Organisation''), (''type'', JStr ''string'')]" False ?c "ex ''kind''"
      "ex ''Organisation''", OF kind_translation] h2 h3 h4 g e
  have "dict_get (target_of [(''const'', JStr ''ex:Organisation''), (''type'', JStr ''string'')]) ''const''
       = Some (JStr (get_property_name ?c (ex ''Organisation'')))
     \<and> dict_get (target_of [(''const'', JStr ''ex:Organisation''), (''type'', JStr ''string'')]) ''type''
       = Some (JStr ''string'')"
    by simp
  with h2 h3 h4 h5 kind_translation show ?thesis by simp
qed

text \<open>
  Claim C7, as stated, fails: with \<^verbatim>\<open>sh:hasValue ex:Fixed\<close> and \<^verbatim>\<open>sh:maxCount 2\<close> the
  translated schema is an array; it has no \<^verbatim>\<open>const\<close> key and its \<^verbatim>\<open>type\<close> is
  \<^verbatim>\<open>array\<close>, the constant being in \<^verbatim>\<open>items\<close>.
\<close>

theorem has_value_in_array:
  "graph_value item_graph (BNode ''const'') (SH ''path'') = Some (ex ''const'')
   \<and> graph_value item_graph (BNode ''const'') (SH ''hasValue'') = Some (URIRef ''http://example.org/Fixed'')
   \<and> convert_property_shape (fresh item_graph ''curie'') (BNode ''const'')
     = Some (Inr ((Some ''ex:const'',
                   [(''type'', JStr ''array''),
                    (''items'', JObj [(''const'', JStr ''ex:Fixed''), (''type'', JStr ''string'')]),
                    (''maxItems'', JInt 2)],
                   False), fresh item_graph ''curie''))
   \<and> dict_get [(''type'', JStr ''array''),
                (''items'', JObj [(''const'', JStr ''ex:Fixed''), (''type'', JStr ''string'')]),
                (''maxItems'', JInt 2)] ''const'' = None
   \<and> dict_get [(''type'', JStr ''array''),
                (''items'', JObj [(''const'', JStr ''ex:Fixed''), (''type'', JStr ''string'')]),
                (''maxItems'', JInt 2)] ''type'' = Some (JStr ''array'')"
proof -
  have a: "graph_value item_graph (BNode ''const'') (SH ''path'') = Some (ex ''const'')" by code_simp
  have b: "graph_value item_graph (BNode ''const'') (SH ''hasValue'') = Some (URIRef ''http://example.org/Fixed'')"
    by code_simp
  have c: "convert_property_shape (fresh item_graph ''curie'') (BNode ''const'')
     = Some (Inr ((Some ''ex:const'',
                   [(''type'', JStr ''array''),
                    (''items'', JObj [(''const'', JStr ''ex:Fixed''), (''type'', JStr ''string'')]),
                    (''maxItems'', JInt 2)],
                   False), fresh item_graph ''curie''))" by code_simp
  from a b c show ?thesis by (simp add: dict_get_def)
qed

subsection \<open>Enumerations\<close>















subsection \<open>A translation that returns\<close>

















end
